theory Spec2Isabelle
  imports Main "HOL-Library.Word" "HOL-Library.Char_ord" "HOL-Library.List_Lexorder"
    "HOL-Library.Sublist"
begin

section \<open>Go values and types as seen through reflection\<close>

text \<open>
  The value compiler of \<^verbatim>\<open>pkg/generator/crd\<close> walks a Go value with package
  \<^verbatim>\<open>reflect\<close>.  A \<^verbatim>\<open>reflect.Kind\<close> is an enumeration; the scalar kinds are the
  ones the switch of \<^verbatim>\<open>generateBuiltinLiteralValue\<close> lists.
\<close>

datatype kind =
    KBool | KInt | KInt8 | KInt16 | KInt32 | KInt64
  | KUint | KUint8 | KUint16 | KUint32 | KUint64 | KUintptr
  | KFloat32 | KFloat64 | KString
  | KPtr | KSlice | KArray | KMap | KStruct | KChan | KFunc | KInterface

text \<open>\<^verbatim>\<open>Kind.String()\<close> of the Go standard library.\<close>

fun kindString :: "kind \<Rightarrow> string" where
  "kindString KBool = ''bool''"
| "kindString KInt = ''int''"
| "kindString KInt8 = ''int8''"
| "kindString KInt16 = ''int16''"
| "kindString KInt32 = ''int32''"
| "kindString KInt64 = ''int64''"
| "kindString KUint = ''uint''"
| "kindString KUint8 = ''uint8''"
| "kindString KUint16 = ''uint16''"
| "kindString KUint32 = ''uint32''"
| "kindString KUint64 = ''uint64''"
| "kindString KUintptr = ''uintptr''"
| "kindString KFloat32 = ''float32''"
| "kindString KFloat64 = ''float64''"
| "kindString KString = ''string''"
| "kindString KPtr = ''ptr''"
| "kindString KSlice = ''slice''"
| "kindString KArray = ''array''"
| "kindString KMap = ''map''"
| "kindString KStruct = ''struct''"
| "kindString KChan = ''chan''"
| "kindString KFunc = ''func''"
| "kindString KInterface = ''interface''"

text \<open>
  A scalar carries its machine representation: integers as words of their width
  (\<^verbatim>\<open>int\<close>, \<^verbatim>\<open>uint\<close> and \<^verbatim>\<open>uintptr\<close> taken as 64 bits), floats as their
  IEEE-754 bit pattern, strings as byte lists.
\<close>

datatype lvalue =
    BoolV bool
  | IntV "64 word" | Int8V "8 word" | Int16V "16 word" | Int32V "32 word" | Int64V "64 word"
  | UintV "64 word" | Uint8V "8 word" | Uint16V "16 word" | Uint32V "32 word" | Uint64V "64 word"
  | UintptrV "64 word"
  | Float32V "32 word" | Float64V "64 word"
  | StringV string

fun kindOf :: "lvalue \<Rightarrow> kind" where
  "kindOf (BoolV _) = KBool"
| "kindOf (IntV _) = KInt"
| "kindOf (Int8V _) = KInt8"
| "kindOf (Int16V _) = KInt16"
| "kindOf (Int32V _) = KInt32"
| "kindOf (Int64V _) = KInt64"
| "kindOf (UintV _) = KUint"
| "kindOf (Uint8V _) = KUint8"
| "kindOf (Uint16V _) = KUint16"
| "kindOf (Uint32V _) = KUint32"
| "kindOf (Uint64V _) = KUint64"
| "kindOf (UintptrV _) = KUintptr"
| "kindOf (Float32V _) = KFloat32"
| "kindOf (Float64V _) = KFloat64"
| "kindOf (StringV _) = KString"

text \<open>
  What the compiler reads of a struct type: its package path and name, whether it is an
  anonymous struct (\<^verbatim>\<open>reflection.IsAnonymousStruct\<close>), whether
  \<^verbatim>\<open>reflection.HasUnexportedField\<close> finds private state below the fields of the type
  itself (in the \<^verbatim>\<open>time.Time\<close> that \<^verbatim>\<open>metav1.Time\<close> embeds, for one), and whether the
  type or its pointer type implements \<^verbatim>\<open>json.Marshaler\<close> and \<^verbatim>\<open>json.Unmarshaler\<close>
  (the four \<^verbatim>\<open>Implements\<close> calls of \<^verbatim>\<open>generateStructWithUnexportedField\<close>).
\<close>

record sinfo =
  sPkgPath :: string
  sName :: string
  sAnonymous :: bool
  sNestedUnexported :: bool
  sMarshaler :: bool
  sPtrMarshaler :: bool
  sUnmarshaler :: bool
  sPtrUnmarshaler :: bool

text \<open>A \<^verbatim>\<open>reflect.StructField\<close>: its name and whether it is exported.\<close>

record finfo =
  fName :: string
  fExported :: bool

text \<open>
  \<^verbatim>\<open>reflect.Type\<close>.  A scalar type carries its kind, \<^verbatim>\<open>PkgPath()\<close>, \<^verbatim>\<open>Name()\<close> and the
  answer of \<^verbatim>\<open>reflection.IsCustomType\<close>; so does an interface type.  The complex and
  unsafe-pointer kinds, which no case of the compiler names either, are left out.
\<close>

datatype rtype =
    TLit kind string string bool
  | TPtr rtype
  | TSlice rtype
  | TArray nat rtype
  | TMap rtype rtype
  | TStruct sinfo "(finfo \<times> rtype) list"
  | TChan rtype
  | TFunc
  | TInterface string string bool

text \<open>
  \<^verbatim>\<open>reflect.Value\<close>.  Every value determines its type: a nil pointer, slice or map
  keeps the type it is nil at, a struct value lists its fields in declaration order.
  The entries of a map value are listed in the order the range loop yields them.
\<close>

datatype gvalue =
    VLit string string bool lvalue
  | VNilPtr rtype
  | VPtr gvalue
  | VNilSlice rtype
  | VSlice rtype "gvalue list"
  | VArray rtype "gvalue list"
  | VNilMap rtype rtype
  | VMap rtype rtype "(gvalue \<times> gvalue) list"
  | VStruct sinfo "(finfo \<times> gvalue) list"
  | VChan rtype bool
  | VFunc bool
  | VInterface string string bool bool

fun typeOf :: "gvalue \<Rightarrow> rtype" where
  "typeOf (VLit p n c lv) = TLit (kindOf lv) p n c"
| "typeOf (VNilPtr t) = TPtr t"
| "typeOf (VPtr e) = TPtr (typeOf e)"
| "typeOf (VNilSlice t) = TSlice t"
| "typeOf (VSlice t xs) = TSlice t"
| "typeOf (VArray t xs) = TArray (length xs) t"
| "typeOf (VNilMap k e) = TMap k e"
| "typeOf (VMap k e kvs) = TMap k e"
| "typeOf (VStruct si fs) = TStruct si (map (\<lambda>(f, x). (f, typeOf x)) fs)"
| "typeOf (VChan t isNil) = TChan t"
| "typeOf (VFunc isNil) = TFunc"
| "typeOf (VInterface p n c isNil) = TInterface p n c"

fun Kind :: "rtype \<Rightarrow> kind" where
  "Kind (TLit k p n c) = k"
| "Kind (TPtr t) = KPtr"
| "Kind (TSlice t) = KSlice"
| "Kind (TArray n t) = KArray"
| "Kind (TMap k e) = KMap"
| "Kind (TStruct si fs) = KStruct"
| "Kind (TChan t) = KChan"
| "Kind TFunc = KFunc"
| "Kind (TInterface p n c) = KInterface"

text \<open>
  \<^verbatim>\<open>reflect.Value.IsZero\<close>: a scalar is zero when it is false, 0 or the empty string,
  a float when it compares equal to 0, which positive and negative zero both do (the
  floats are kept as their IEEE bit patterns); a pointer, slice, map, channel, function
  or interface when it is nil; an array when all its elements are zero, a struct when all
  its fields but those named \<open>_\<close> are.
\<close>

fun lvalueIsZero :: "lvalue \<Rightarrow> bool" where
  "lvalueIsZero (BoolV b) = (\<not> b)"
| "lvalueIsZero (IntV w) = (w = 0)"
| "lvalueIsZero (Int8V w) = (w = 0)"
| "lvalueIsZero (Int16V w) = (w = 0)"
| "lvalueIsZero (Int32V w) = (w = 0)"
| "lvalueIsZero (Int64V w) = (w = 0)"
| "lvalueIsZero (UintV w) = (w = 0)"
| "lvalueIsZero (Uint8V w) = (w = 0)"
| "lvalueIsZero (Uint16V w) = (w = 0)"
| "lvalueIsZero (Uint32V w) = (w = 0)"
| "lvalueIsZero (Uint64V w) = (w = 0)"
| "lvalueIsZero (UintptrV w) = (w = 0)"
| "lvalueIsZero (Float32V w) = (w = 0 \<or> w = 0x80000000)"
| "lvalueIsZero (Float64V w) = (w = 0 \<or> w = 0x8000000000000000)"
| "lvalueIsZero (StringV s) = (s = [])"

fun IsZero :: "gvalue \<Rightarrow> bool" where
  "IsZero (VLit p n c lv) = lvalueIsZero lv"
| "IsZero (VNilPtr t) = True"
| "IsZero (VPtr e) = False"
| "IsZero (VNilSlice t) = True"
| "IsZero (VSlice t xs) = False"
| "IsZero (VArray t xs) = list_all IsZero xs"
| "IsZero (VNilMap k e) = True"
| "IsZero (VMap k e kvs) = False"
| "IsZero (VStruct si fs) = list_all (\<lambda>(f, x). IsZero x \<or> fName f = ''_'') fs"
| "IsZero (VChan t isNil) = isNil"
| "IsZero (VFunc isNil) = isNil"
| "IsZero (VInterface p n c isNil) = isNil"

section \<open>The fragments of generated source\<close>

text \<open>
  The compiler builds its output with the \<^verbatim>\<open>jen\<close> library: a \<^verbatim>\<open>*jen.Statement\<close> is a
  list of \<^verbatim>\<open>jen.Code\<close> items, and a statement can itself be an item (\<^verbatim>\<open>Add\<close>).  The
  constructors below are the \<^verbatim>\<open>jen\<close> calls the source makes.  \<open>Stmt\<close> is a statement
  used as an item, \<open>NilStmt\<close> a nil \<^verbatim>\<open>*jen.Statement\<close> used as an item.  A
  \<^verbatim>\<open>jen.Dict\<close> is a Go map from keys to values; it is kept as the list of its entries
  in the order they were put, and the order in which \<^verbatim>\<open>jen\<close> writes them out is not
  part of this model.  \<open>LitInt\<close> is \<^verbatim>\<open>jen.Lit\<close> of the length of an array type.
\<close>

datatype code =
    Op string
  | Id string
  | Qual string string
  | Lit lvalue
  | LitInt nat
  | Line
  | Index "code list"
  | MapOf code
  | Chan
  | Struct "code list"
  | Byte
  | Func
  | Var
  | Comment string
  | Params "code list"
  | Parens code
  | Call "code list"
  | Block "code list"
  | Return "code list"
  | Values "code list"
  | Dict "(code \<times> code) list"
  | Stmt "code list"
  | NilStmt

text \<open>A \<^verbatim>\<open>*jen.Statement\<close> result is \<open>None\<close> when the pointer is nil.\<close>

type_synonym statement = "code list option"

fun asCode :: "statement \<Rightarrow> code" where
  "asCode None = NilStmt"
| "asCode (Some s) = Stmt s"

text \<open>
  \<^verbatim>\<open>d[k] = v\<close> on a \<^verbatim>\<open>jen.Dict\<close>, a Go map keyed by the \<^verbatim>\<open>jen.Code\<close> interface value: two
  keys are the same key only when both are the nil statement pointer, since every other
  key is a freshly allocated statement.
\<close>

fun dictSet :: "(code \<times> code) list \<Rightarrow> code \<Rightarrow> code \<Rightarrow> (code \<times> code) list" where
  "dictSet [] k v = [(k, v)]"
| "dictSet ((k', v') # d) k v =
     (if k = NilStmt \<and> k' = NilStmt then (k', v) # d else (k', v') # dictSet d k v)"

text \<open>
  A call either returns or panics.  The only panic of the value compiler is the
  \<^verbatim>\<open>reflect\<close> panic of \<^verbatim>\<open>Type()\<close> on the zero \<^verbatim>\<open>Value\<close> that \<^verbatim>\<open>Elem()\<close> of a nil pointer
  returns, and the nil receiver of a \<^verbatim>\<open>jen\<close> method.
\<close>

datatype 'a outcome = Panic | Returns 'a

fun bind :: "'a outcome \<Rightarrow> ('a \<Rightarrow> 'b outcome) \<Rightarrow> 'b outcome" where
  "bind Panic f = Panic"
| "bind (Returns x) f = f x"

fun sequence :: "'a outcome list \<Rightarrow> 'a list outcome" where
  "sequence [] = Returns []"
| "sequence (Panic # rs) = Panic"
| "sequence (Returns x # rs) = bind (sequence rs) (\<lambda>xs. Returns (x # xs))"



text \<open>A Go \<^verbatim>\<open>error\<close> value.\<close>

datatype error = MarshalError | ReadFileError | OpenError | RenderError

section \<open>The reflection helpers\<close>

text \<open>
  Modelled from the spec: \<^verbatim>\<open>reflection.IsLiteralType\<close> of the external package
  \<^verbatim>\<open>github.com/zoumo/golib/reflection\<close>.  The spec's Scalar kinds: the integer kinds,
  the two floating-point widths, boolean, string and the address-sized unsigned integer
  kind; they are the kinds \<^verbatim>\<open>generateBuiltinLiteralValue\<close> switches on.
\<close>

fun IsLiteralType :: "rtype \<Rightarrow> bool" where
  "IsLiteralType (TLit k p n c) = True"
| "IsLiteralType _ = False"

text \<open>
  Modelled from the spec: \<^verbatim>\<open>reflection.IsCustomType\<close>, the spec's \<open>isCustomNamed\<close>: the
  type is a named type distinct from the builtin of its kind.  The type descriptor
  carries the answer.
\<close>

fun IsCustomType :: "rtype \<Rightarrow> bool" where
  "IsCustomType (TLit k p n c) = c"
| "IsCustomType (TInterface p n c) = c"
| "IsCustomType _ = False"

text \<open>Modelled from the spec: \<^verbatim>\<open>reflection.IsAnonymousStruct\<close>, the spec's \<open>isAnonymous\<close>.\<close>

fun IsAnonymousStruct :: "rtype \<Rightarrow> bool" where
  "IsAnonymousStruct (TStruct si fs) = sAnonymous si"
| "IsAnonymousStruct _ = False"

text \<open>
  Modelled from the spec: \<^verbatim>\<open>reflection.IsUnexportedField\<close>, the negation of the spec's
  \<open>visible\<close> flag of a field.
\<close>

definition IsUnexportedField :: "finfo \<Rightarrow> bool" where
  "IsUnexportedField f = (\<not> fExported f)"

text \<open>
  Modelled from the spec: \<^verbatim>\<open>reflection.HasUnexportedField\<close>: the Record has at least one
  non-visible field.  The helper also answers yes for a record that only holds private
  state inside a record it embeds, as \<^verbatim>\<open>metav1.Time\<close> does; the type descriptor
  carries that part of the answer.
\<close>

fun HasUnexportedField :: "rtype \<Rightarrow> bool" where
  "HasUnexportedField (TStruct si fs) =
     (list_ex (\<lambda>(f, t). IsUnexportedField f) fs \<or> sNestedUnexported si)"
| "HasUnexportedField _ = False"

text \<open>\<^verbatim>\<open>PkgPath()\<close> and \<^verbatim>\<open>Name()\<close> of a type; empty for an unnamed composite type.\<close>

fun PkgPath :: "rtype \<Rightarrow> string" where
  "PkgPath (TLit k p n c) = p"
| "PkgPath (TStruct si fs) = sPkgPath si"
| "PkgPath (TInterface p n c) = p"
| "PkgPath _ = []"

fun Name :: "rtype \<Rightarrow> string" where
  "Name (TLit k p n c) = n"
| "Name (TStruct si fs) = sName si"
| "Name (TInterface p n c) = n"
| "Name _ = []"

section \<open>The value compiler\<close>

text \<open>
  \<^verbatim>\<open>Capitalize\<close>: the first rune, when it is a lower-case ASCII letter (97 to 122), is
  moved to upper case.
\<close>

fun Capitalize :: "string \<Rightarrow> string" where
  "Capitalize [] = []"
| "Capitalize (c # cs) =
     (if 97 \<le> (of_char c :: nat) \<and> (of_char c :: nat) \<le> 122
      then char_of ((of_char c :: nat) - 32) # cs else c # cs)"

fun generateType :: "rtype \<Rightarrow> statement" where
  "generateType (TPtr t) = Some [Op ''*'', asCode (generateType t)]"
| "generateType (TSlice t) = Some [Index [], asCode (generateType t)]"
| "generateType (TArray n t) = Some [Index [LitInt n], asCode (generateType t)]"
| "generateType (TMap k e) = Some [MapOf (asCode (generateType k)), asCode (generateType e)]"
| "generateType (TStruct si fs) = Some [Qual (sPkgPath si) (sName si)]"
| "generateType (TChan t) = Some [Chan, asCode (generateType t)]"
| "generateType TFunc = None"
| "generateType (TLit k p n c) = (if c then Some [Qual p n] else Some [Id (kindString k)])"
| "generateType (TInterface p n c) =
     (if c then Some [Qual p n] else Some [Id (kindString KInterface)])"

text \<open>
  \<^verbatim>\<open>generateBuiltinLiteralValue\<close>: each case reads the scalar at its own width and hands
  it to \<^verbatim>\<open>jen.Lit\<close>.
\<close>

definition generateBuiltinLiteralValue :: "lvalue \<Rightarrow> code list" where
  "generateBuiltinLiteralValue lv = [Lit lv]"

fun generatePtrLiteralValue :: "gvalue \<Rightarrow> statement" where
  "generatePtrLiteralValue (VLit p n c lv) =
     (let value = generateBuiltinLiteralValue lv;
          ptr = [Qual ''github.com/zoumo/golib/pointer'' (Capitalize (kindString (kindOf lv))),
                 Call [Stmt value]]
      in if c then Some [Parens (Stmt [Op ''*'', Qual p n]), Parens (Stmt ptr)]
         else Some ptr)"
| "generatePtrLiteralValue _ = None"

fun generateLiteralValue :: "gvalue \<Rightarrow> statement" where
  "generateLiteralValue (VLit p n c lv) =
     (let ts = generateBuiltinLiteralValue lv
      in if c then Some [Qual p n, Parens (Stmt ts)] else Some ts)"
| "generateLiteralValue _ = None"

text \<open>
  \<^verbatim>\<open>generateStructWithUnexportedField\<close>.  \<open>marshal\<close> is \<^verbatim>\<open>json.Marshal\<close> on the value; the
  source drops its error, and the bytes of a failed call are nil, the empty string.
\<close>

fun generateStructWithUnexportedField ::
  "(gvalue \<Rightarrow> error + string) \<Rightarrow> gvalue \<Rightarrow> bool \<Rightarrow> statement" where
  "generateStructWithUnexportedField marshal (VStruct si fs) ptrResult =
     (let structS = [Qual (sPkgPath si) (sName si)] in
      if (sMarshaler si \<or> sPtrMarshaler si) \<and> (sUnmarshaler si \<or> sPtrUnmarshaler si)
      then
        (let jsonBytes = (case marshal (VStruct si fs) of Inl err \<Rightarrow> [] | Inr bytes \<Rightarrow> bytes)
         in Some ([Func, Params []] @ (if ptrResult then [Op ''*''] else []) @
              [Stmt structS,
               Block
                [Stmt [Id ''jsonStr'', Op '':='', Lit (StringV jsonBytes)],
                 Stmt [Var, Id ''obj'', Stmt structS],
                 Stmt [Qual ''encoding/json'' ''Unmarshal'',
                       Call [Stmt [Index [], Byte, Parens (Stmt [Id ''jsonStr''])],
                             Stmt [Op ''&'', Id ''obj'']]],
                 (if ptrResult then Stmt [Return [Stmt [Op ''&'', Id ''obj'']]]
                  else Stmt [Return [Stmt [Id ''obj'']]])],
               Call []]))
      else None)"
| "generateStructWithUnexportedField marshal _ ptrResult = None"

text \<open>
  \<^verbatim>\<open>ts.Values(...)\<close> and \<^verbatim>\<open>ts.ValuesFunc(...)\<close> append to the receiver; a nil receiver
  panics.
\<close>

fun valuesOn :: "statement \<Rightarrow> code list \<Rightarrow> statement outcome" where
  "valuesOn None items = Panic"
| "valuesOn (Some ts) items = Returns (Some (ts @ [Values items]))"

text \<open>The type prefix of \<^verbatim>\<open>generateValue\<close>: dropped when \<open>omitType\<close> is set.\<close>

definition typePrefix :: "rtype \<Rightarrow> bool \<Rightarrow> statement" where
  "typePrefix t omitType = (if omitType then Some [] else generateType t)"

text \<open>The puts of a loop body into a fresh \<^verbatim>\<open>jen.Dict\<close>, in order.\<close>

definition dictOf :: "(code \<times> code) option list \<Rightarrow> (code \<times> code) list" where
  "dictOf puts = foldl (\<lambda>d p. case p of None \<Rightarrow> d | Some (k, v) \<Rightarrow> dictSet d k v) [] puts"

fun generateValue :: "(gvalue \<Rightarrow> error + string) \<Rightarrow> gvalue \<Rightarrow> bool \<Rightarrow> statement outcome"
and generatePtrValue :: "(gvalue \<Rightarrow> error + string) \<Rightarrow> gvalue \<Rightarrow> bool \<Rightarrow> statement outcome"
and generateStructValue ::
  "(gvalue \<Rightarrow> error + string) \<Rightarrow> gvalue \<Rightarrow> bool \<Rightarrow> bool \<Rightarrow> statement outcome"
where
  "generateValue marshal (VLit p n c lv) omitType = Returns (generateLiteralValue (VLit p n c lv))"
| "generateValue marshal (VNilPtr t) omitType = generatePtrValue marshal (VNilPtr t) omitType"
| "generateValue marshal (VPtr e) omitType = generatePtrValue marshal (VPtr e) omitType"
| "generateValue marshal (VNilSlice t) omitType = valuesOn (typePrefix (TSlice t) omitType) []"
| "generateValue marshal (VSlice t xs) omitType =
     bind (sequence (map (\<lambda>x. generateValue marshal x True) xs)) (\<lambda>ys.
       valuesOn (typePrefix (TSlice t) omitType)
         (map (\<lambda>y. Stmt [Line, asCode y]) ys @ (if 0 < length xs then [Stmt [Line]] else [])))"
| "generateValue marshal (VArray t xs) omitType =
     bind (sequence (map (\<lambda>x. generateValue marshal x True) xs)) (\<lambda>ys.
       valuesOn (typePrefix (TArray (length xs) t) omitType)
         (map (\<lambda>y. Stmt [Line, asCode y]) ys @ (if 0 < length xs then [Stmt [Line]] else [])))"
| "generateValue marshal (VNilMap k e) omitType = valuesOn (typePrefix (TMap k e) omitType) [Dict []]"
| "generateValue marshal (VMap k e kvs) omitType =
     bind (sequence (map (\<lambda>(kv, vv).
              bind (generateValue marshal kv False) (\<lambda>kc.
              bind (generateValue marshal vv True) (\<lambda>vc.
                Returns (Some (asCode kc, asCode vc))))) kvs)) (\<lambda>puts.
       valuesOn (typePrefix (TMap k e) omitType) [Dict (dictOf puts)])"
| "generateValue marshal (VStruct si fs) omitType =
     generateStructValue marshal (VStruct si fs) False omitType"
| "generateValue marshal (VChan t isNil) omitType = Returns None"
| "generateValue marshal (VFunc isNil) omitType = Returns None"
| "generateValue marshal (VInterface p n c isNil) omitType = Returns None"
| "generatePtrValue marshal (VNilPtr t) omitType = Panic"
| "generatePtrValue marshal (VPtr e) omitType =
     (if IsLiteralType (typeOf e) then Returns (generatePtrLiteralValue e)
      else if Kind (typeOf e) = KStruct then generateStructValue marshal e True omitType
      else bind (if omitType then generateValue marshal e True else Returns None) (\<lambda>_.
           bind (generateValue marshal e False) (\<lambda>r.
             Returns (Some [Op ''&'', asCode r]))))"
| "generatePtrValue marshal v omitType = Returns None"
| "generateStructValue marshal (VStruct si fs) ptrResult omitType =
     (let t = typeOf (VStruct si fs);
          j = (if HasUnexportedField t
               then generateStructWithUnexportedField marshal (VStruct si fs) ptrResult
               else None)
      in case j of
           Some f \<Rightarrow> Returns (Some f)
         | None \<Rightarrow>
            (let ts = (if IsAnonymousStruct t
                       then Some [Struct (map (\<lambda>(f, x). Stmt [Id (fName f), asCode (generateType (typeOf x))]) fs)]
                       else Some [Qual (PkgPath t) (Name t)]);
                 ts = (if ptrResult then Some [Op ''&'', asCode ts] else ts);
                 ts = (if omitType then Some [] else ts)
             in bind (sequence (map (\<lambda>(f, x).
                        if IsUnexportedField f \<or> IsAnonymousStruct (typeOf x) then Returns None
                        else if \<not> IsZero x
                        then bind (generateValue marshal x False) (\<lambda>r.
                               Returns (Some (Stmt [Id (fName f)], asCode r)))
                        else Returns None) fs)) (\<lambda>puts.
                  valuesOn ts [Dict (dictOf puts)])))"
| "generateStructValue marshal v ptrResult omitType = Returns None"

definition GenerateValue :: "(gvalue \<Rightarrow> error + string) \<Rightarrow> gvalue \<Rightarrow> statement outcome" where
  "GenerateValue marshal i = generateValue marshal i False"

section \<open>The group artifact emitter\<close>

text \<open>
  A \<^verbatim>\<open>schema.GroupKind\<close>, the key of \<^verbatim>\<open>parser.CustomResourceDefinitions\<close>.
\<close>

record GroupKind =
  gkGroup :: string
  gkKind :: string

text \<open>
  A parsed \<^verbatim>\<open>apiextensionsv1.CustomResourceDefinition\<close>.  The emitter reads
  \<^verbatim>\<open>Spec.Group\<close> and writes \<^verbatim>\<open>Annotations\<close> (a field of the embedded
  \<^verbatim>\<open>ObjectMeta\<close>; \<open>None\<close> is the nil map, the entries are in range order); everything
  else it hands to the value compiler untouched, kept here as reflected values.
\<close>

record crd =
  crdTypeMeta :: gvalue
  crdName :: string
  crdAnnotations :: "(string \<times> string) list option"
  crdMetaRest :: "(finfo \<times> gvalue) list"
  crdGroup :: string
  crdSpecRest :: "(finfo \<times> gvalue) list"
  crdStatus :: gvalue

definition exportedField :: "string \<Rightarrow> finfo" where
  "exportedField n = \<lparr>fName = n, fExported = True\<rparr>"

definition namedStruct :: "string \<Rightarrow> string \<Rightarrow> sinfo" where
  "namedStruct p n =
     \<lparr>sPkgPath = p, sName = n, sAnonymous = False, sNestedUnexported = False,
      sMarshaler = False, sPtrMarshaler = False, sUnmarshaler = False, sPtrUnmarshaler = False\<rparr>"

definition stringValue :: "string \<Rightarrow> gvalue" where
  "stringValue s = VLit [] ''string'' False (StringV s)"

definition stringType :: rtype where
  "stringType = TLit KString [] ''string'' False"

definition annotationsValue :: "(string \<times> string) list option \<Rightarrow> gvalue" where
  "annotationsValue a =
     (case a of
        None \<Rightarrow> VNilMap stringType stringType
      | Some kvs \<Rightarrow> VMap stringType stringType (map (\<lambda>(k, v). (stringValue k, stringValue v)) kvs))"

text \<open>The value \<^verbatim>\<open>reflect.ValueOf\<close> sees for a definition.\<close>

definition crdValue :: "crd \<Rightarrow> gvalue" where
  "crdValue c =
     VStruct (namedStruct ''k8s.io/apiextensions-apiserver/pkg/apis/apiextensions/v1''
                ''CustomResourceDefinition'')
       [(exportedField ''TypeMeta'', crdTypeMeta c),
        (exportedField ''ObjectMeta'',
           VStruct (namedStruct ''k8s.io/apimachinery/pkg/apis/meta/v1'' ''ObjectMeta'')
             ((exportedField ''Name'', stringValue (crdName c)) #
              (exportedField ''Annotations'', annotationsValue (crdAnnotations c)) #
              crdMetaRest c)),
        (exportedField ''Spec'',
           VStruct (namedStruct ''k8s.io/apiextensions-apiserver/pkg/apis/apiextensions/v1''
                      ''CustomResourceDefinitionSpec'')
             ((exportedField ''Group'', stringValue (crdGroup c)) # crdSpecRest c)),
        (exportedField ''Status'', crdStatus c)]"

text \<open>The fields of \<^verbatim>\<open>Generator\<close> that \<^verbatim>\<open>Generate\<close> itself reads.\<close>

record Generator =
  HeaderFile :: string
  Year :: string
  GenInstall :: bool
  GenCRD :: bool

text \<open>
  What \<^verbatim>\<open>Generate\<close> gets from its collaborators: the file reader and the output rule of
  the generation context, \<^verbatim>\<open>json.Marshal\<close>, \<^verbatim>\<open>File.Render\<close>, the path functions of
  the standard library and \<^verbatim>\<open>loader.NonVendorPath\<close>.
\<close>

record env =
  eReadFile :: "string \<Rightarrow> error + string"
  eOpen :: "string \<Rightarrow> error option"
  eMarshal :: "gvalue \<Rightarrow> error + string"
  eBase :: "string \<Rightarrow> string"
  eDir :: "string \<Rightarrow> string"
  eJoin :: "string list \<Rightarrow> string"
  eNonVendorPath :: "string \<Rightarrow> string"

text \<open>
  What the parser holds once \<^verbatim>\<open>NeedCRDFor\<close> has run for every kind: the package of
  \<^verbatim>\<open>metav1\<close> found in the roots (by path), the keys of \<^verbatim>\<open>kubeKinds\<close>, the entries of
  \<^verbatim>\<open>CustomResourceDefinitions\<close> and of \<^verbatim>\<open>GroupVersions\<close> (package path and group),
  each map in the order its range loop yields.
\<close>

record parsed =
  pMetav1 :: "string option"
  pKubeKinds :: "GroupKind list"
  pCRDs :: "(GroupKind \<times> crd) list"
  pGroupVersions :: "(string \<times> string) list"

text \<open>A \<^verbatim>\<open>jen.File\<close>: package name, header comments, import aliases, items.\<close>

record jfile =
  jPackage :: string
  jHeader :: "string list"
  jAliases :: "(string \<times> string) list"
  jItems :: "code list"

text \<open>
  The output directory: each opened file with what was rendered into it, \<open>None\<close> when
  \<^verbatim>\<open>Render\<close> failed after the file was opened.  \<open>renderFails\<close> is the error of
  \<^verbatim>\<open>File.Render\<close>, if any.
\<close>

type_synonym files = "(string \<times> jfile option) list"

definition NewFile :: "string \<Rightarrow> jfile" where
  "NewFile packageName = \<lparr>jPackage = packageName, jHeader = [], jAliases = [], jItems = []\<rparr>"

definition KubeAPIApprovedAnnotation :: string where
  "KubeAPIApprovedAnnotation = ''api-approved.kubernetes.io''"

definition HasSuffix :: "string \<Rightarrow> string \<Rightarrow> bool" where
  "HasSuffix s suff =
     (length suff \<le> length s \<and> drop (length s - length suff) s = suff)"

text \<open>\<^verbatim>\<open>strings.ReplaceAll\<close> for a non-empty \<open>old\<close>: non-overlapping, left to right.\<close>

fun replaceFrom :: "nat \<Rightarrow> string \<Rightarrow> string \<Rightarrow> string \<Rightarrow> string" where
  "replaceFrom skip [] old new = []"
| "replaceFrom (Suc k) (c # cs) old new = replaceFrom k cs old new"
| "replaceFrom 0 (c # cs) old new =
     (if old \<noteq> [] \<and> take (length old) (c # cs) = old
      then new @ replaceFrom (length old - 1) cs old new
      else c # replaceFrom 0 cs old new)"

definition ReplaceAll :: "string \<Rightarrow> string \<Rightarrow> string \<Rightarrow> string" where
  "ReplaceAll s old new = replaceFrom 0 s old new"

definition setFileDefault :: "string \<Rightarrow> jfile \<Rightarrow> jfile" where
  "setFileDefault headerText f =
     f\<lparr>jHeader := jHeader f @
          [''// +build !ignore_autogenerated'' @ [CHR 0x0A],
           headerText @ [CHR 0x0A],
           ''// Code generated by crd-gen. DO NOT EDIT.''],
       jAliases := jAliases f @
          [(''k8s.io/apimachinery/pkg/apis/meta/v1'', ''metav1''),
           (''k8s.io/apiextensions-apiserver/pkg/apis/apiextensions/v1beta1'', ''apiextensionsv1beta1''),
           (''k8s.io/apiextensions-apiserver/pkg/apis/apiextensions/v1'', ''apiextensionsv1''),
           (''k8s.io/apimachinery/pkg/util/runtime'', ''utilruntime'')]\<rparr>"

text \<open>
  The tail shared by the three writers: open the file, render into it, close it.  An
  open error leaves no file; a render error leaves the opened file without content.
\<close>

definition writeFile ::
  "env \<Rightarrow> (jfile \<Rightarrow> error option) \<Rightarrow> string \<Rightarrow> jfile \<Rightarrow> files \<Rightarrow> error option \<times> files" where
  "writeFile e renderFails filename f fs =
     (case eOpen e filename of
        Some err \<Rightarrow> (Some err, fs)
      | None \<Rightarrow>
         (case renderFails f of
            Some err \<Rightarrow> (Some err, fs @ [(filename, None)])
          | None \<Rightarrow> (None, fs @ [(filename, Some f)])))"

text \<open>The body of \<^verbatim>\<open>Install\<close>: one must-succeed registration call per package.\<close>

definition installFile :: "env \<Rightarrow> string \<Rightarrow> string list \<Rightarrow> jfile" where
  "installFile e headerText pkgs0 =
     (let schemefile = setFileDefault headerText (NewFile ''install'');
          must = [Qual ''k8s.io/apimachinery/pkg/util/runtime'' ''Must''];
          pkgs = sort pkgs0;
          alias = (\<lambda>pkg. ReplaceAll (eBase e (eDir e pkg) @ eBase e pkg) ''.'' [])
      in schemefile
          \<lparr>jAliases := jAliases schemefile @ map (\<lambda>pkg. (pkg, alias pkg)) pkgs,
           jItems := jItems schemefile @
             [Stmt [Line],
              Stmt [Func, Id ''Install'',
                    Params [Stmt [Id ''scheme'', Op ''*'',
                                  Qual ''k8s.io/apimachinery/pkg/runtime'' ''Scheme'']],
                    Block (map (\<lambda>pkg.
                      Stmt [Stmt (must @
                        [Call [Stmt [Qual pkg ''AddToScheme'', Call [Stmt [Id ''scheme'']]]]])])
                      pkgs)]]\<rparr>)"

definition GenerateScheme ::
  "env \<Rightarrow> (jfile \<Rightarrow> error option) \<Rightarrow> string \<Rightarrow> (string \<times> string) list \<Rightarrow> string \<Rightarrow> files
     \<Rightarrow> error option \<times> files" where
  "GenerateScheme e renderFails headerText groupVersions metav1Pkg fs =
     writeFile e renderFails ''install/zz.generated.scheme.go''
       (installFile e headerText
          (map (\<lambda>(pkg, gv). eNonVendorPath e pkg)
             (filter (\<lambda>(pkg, gv). pkg \<noteq> metav1Pkg) groupVersions))) fs"

definition GenerateGroupInstall ::
  "env \<Rightarrow> (jfile \<Rightarrow> error option) \<Rightarrow> string \<Rightarrow> (string \<times> string) list \<Rightarrow> string \<Rightarrow> string
     \<Rightarrow> files \<Rightarrow> error option \<times> files" where
  "GenerateGroupInstall e renderFails headerText groupVersions grp dirName fs =
     writeFile e renderFails (eJoin e [dirName, ''install'', ''zz.generated.install.go''])
       (installFile e headerText
          (map (\<lambda>(pkg, gv). eNonVendorPath e pkg)
             (filter (\<lambda>(pkg, gv). gv = grp) groupVersions))) fs"

text \<open>
  \<^verbatim>\<open>GenerateGroup\<close>.  \<open>crds\<close> lists the entries of \<^verbatim>\<open>CustomResourceDefinitions\<close> in the
  order the range loop of this call yields them.  Each definition of the group adds a
  comment, its constructor function and a blank line to the file, and a call of the
  constructor to the aggregator.  \<open>renderGroup\<close> is the loop: the value compiler on
  a pointer to each definition of the group.
\<close>

definition crdFuncName :: "GroupKind \<Rightarrow> string" where
  "crdFuncName groupKind = ''New'' @ Capitalize (gkKind groupKind) @ ''CRD''"

definition crdItems :: "GroupKind \<Rightarrow> statement \<Rightarrow> code list" where
  "crdItems groupKind value =
     (let crdid = [Op ''*'', Qual ''k8s.io/apiextensions-apiserver/pkg/apis/apiextensions/v1''
                      ''CustomResourceDefinition'']
      in [Stmt [Comment ''//nolint''],
          Stmt [Func, Id (crdFuncName groupKind), Params [], Stmt crdid,
                Block [Stmt [Return [asCode value]]]],
          Stmt [Line]])"

definition crdsFile ::
  "string \<Rightarrow> string \<Rightarrow> (GroupKind \<times> statement) list \<Rightarrow> jfile" where
  "crdsFile headerText goPackageName rendered =
     (let crdsfile = setFileDefault headerText (NewFile goPackageName);
          newCRDs = map (\<lambda>(groupKind, value). Stmt [Id (crdFuncName groupKind), Call []]) rendered;
          slice = [Index [], Op ''*'',
                   Qual ''k8s.io/apiextensions-apiserver/pkg/apis/apiextensions/v1''
                     ''CustomResourceDefinition'']
      in crdsfile
          \<lparr>jItems := jItems crdsfile @
             concat (map (\<lambda>(groupKind, value). crdItems groupKind value) rendered) @
             [Stmt [Comment ''//nolint''],
              Stmt [Func, Id ''NewCustomResourceDefinitions'', Params [], Stmt slice,
                    Block [Stmt [Return [Stmt (slice @ [Values newCRDs])]]]]]\<rparr>)"

definition renderGroup ::
  "(gvalue \<Rightarrow> error + string) \<Rightarrow> (GroupKind \<times> crd) list \<Rightarrow> string
     \<Rightarrow> (GroupKind \<times> statement) list outcome" where
  "renderGroup marshal crds grp =
     sequence (map (\<lambda>(groupKind, c).
                 bind (GenerateValue marshal (VPtr (crdValue c))) (\<lambda>value.
                   Returns (groupKind, value)))
               (filter (\<lambda>(groupKind, c). gkGroup groupKind = grp) crds))"

definition GenerateGroup ::
  "env \<Rightarrow> (jfile \<Rightarrow> error option) \<Rightarrow> string \<Rightarrow> (GroupKind \<times> crd) list \<Rightarrow> string \<Rightarrow> string
     \<Rightarrow> string \<Rightarrow> files \<Rightarrow> (error option \<times> files) outcome" where
  "GenerateGroup e renderFails headerText crds grp dirName goPackageName fs =
     bind (renderGroup (eMarshal e) crds grp) (\<lambda>rendered.
       Returns (writeFile e renderFails (eJoin e [dirName, ''zz.generated.crd.go''])
                  (crdsFile headerText goPackageName rendered) fs))"

text \<open>
  The protection of the community-owned API groups (the first loop over
  \<^verbatim>\<open>CustomResourceDefinitions\<close> in \<^verbatim>\<open>Generate\<close>): the annotations of a definition of
  such a group are replaced by the single approval annotation.
\<close>

definition protectedGroup :: "string \<Rightarrow> bool" where
  "protectedGroup grp = (HasSuffix grp ''.k8s.io'' \<or> HasSuffix grp ''.kubernetes.io'')"

definition protectCRD :: "crd \<Rightarrow> crd" where
  "protectCRD c =
     (if protectedGroup (crdGroup c)
      then c\<lparr>crdAnnotations :=
               Some [(KubeAPIApprovedAnnotation,
                      ''https://github.com/kubernetes/enhancements/pull/1111'')]\<rparr>
      else c)"

definition protectCRDs :: "(GroupKind \<times> crd) list \<Rightarrow> (GroupKind \<times> crd) list" where
  "protectCRDs crds = map (\<lambda>(gk, c). (gk, protectCRD c)) crds"

text \<open>
  The package and directory name of a group: from the first package of the group that
  the range over \<^verbatim>\<open>GroupVersions\<close> yields, or else the first part of the group name.
\<close>

definition groupNames :: "env \<Rightarrow> (string \<times> string) list \<Rightarrow> string \<Rightarrow> string \<times> string" where
  "groupNames e groupVersions grp =
     (let (dirName, goPackageName) =
            (case filter (\<lambda>(pkg, gv). gv = grp) groupVersions of
               [] \<Rightarrow> ([], [])
             | (pkg, gv) # _ \<Rightarrow>
                 (eBase e (eDir e pkg), ReplaceAll (eBase e (eDir e pkg)) ''.'' []))
      in if goPackageName = []
         then (takeWhile (\<lambda>ch. ch \<noteq> CHR ''.'') grp, takeWhile (\<lambda>ch. ch \<noteq> CHR ''.'') grp)
         else (dirName, goPackageName))"

text \<open>The loop of \<^verbatim>\<open>Generate\<close> over the groups; the first error ends it.\<close>

fun generateGroups ::
  "env \<Rightarrow> (jfile \<Rightarrow> error option) \<Rightarrow> Generator \<Rightarrow> string \<Rightarrow> (GroupKind \<times> crd) list
     \<Rightarrow> (string \<times> string) list \<Rightarrow> string list \<Rightarrow> files \<Rightarrow> (error option \<times> files) outcome" where
  "generateGroups e renderFails g headerText crds groupVersions [] fs = Returns (None, fs)"
| "generateGroups e renderFails g headerText crds groupVersions (grp # groups) fs =
     (let (dirName, goPackageName) = groupNames e groupVersions grp;
          (err1, fs1) = (if GenInstall g
                         then GenerateGroupInstall e renderFails headerText groupVersions grp dirName fs
                         else (None, fs))
      in case err1 of
           Some err \<Rightarrow> Returns (Some err, fs1)
         | None \<Rightarrow>
            bind (if GenCRD g
                  then GenerateGroup e renderFails headerText crds grp dirName goPackageName fs1
                  else Returns (None, fs1)) (\<lambda>(err2, fs2).
              case err2 of
                Some err \<Rightarrow> Returns (Some err, fs2)
              | None \<Rightarrow> generateGroups e renderFails g headerText crds groupVersions groups fs2))"

definition Generate ::
  "Generator \<Rightarrow> env \<Rightarrow> (jfile \<Rightarrow> error option) \<Rightarrow> parsed \<Rightarrow> (error option \<times> files) outcome" where
  "Generate g e renderFails p =
     (case (if HeaderFile g \<noteq> [] then eReadFile e (HeaderFile g) else Inr []) of
        Inl err \<Rightarrow> Returns (Some err, [])
      | Inr headerBytes \<Rightarrow>
         (let headerText = ReplaceAll headerBytes '' YEAR'' ('' '' @ Year g) in
          case pMetav1 p of
            None \<Rightarrow> Returns (None, [])
          | Some metav1Pkg \<Rightarrow>
             if length (pKubeKinds p) = 0 then Returns (None, [])
             else
               (let groups = map gkGroup (pKubeKinds p);
                    crds = protectCRDs (pCRDs p)
                in bind (generateGroups e renderFails g headerText crds (pGroupVersions p) groups [])
                     (\<lambda>(err, fs).
                        case err of
                          Some err' \<Rightarrow> Returns (Some err', fs)
                        | None \<Rightarrow>
                           if GenInstall g
                           then Returns (GenerateScheme e renderFails headerText
                                           (pGroupVersions p) metav1Pkg fs)
                           else Returns (None, fs)))))"

section \<open>The generator selection\<close>

definition sortedValidGenerators :: "string list" where
  "sortedValidGenerators =
     [''deepcopy'', ''defaulter'', ''conversion'', ''register'', ''install'', ''crd'',
      ''openapi'', ''protobuf'', ''client'', ''lister'', ''informer'']"

text \<open>
  One round of the loop over the options: an empty option is skipped, \<open>-name\<close> goes to
  the disabled set, \<open>+name\<close> to the enabled set, any other name to the target set.
\<close>

fun optionStep ::
  "string \<Rightarrow> string set \<times> string set \<times> string set \<Rightarrow> string set \<times> string set \<times> string set" where
  "optionStep [] (disabled, enabled, target) = (disabled, enabled, target)"
| "optionStep (c # cs) (disabled, enabled, target) =
     (if c = CHR ''-'' then (insert cs disabled, enabled, target)
      else if c = CHR ''+'' then (disabled, insert cs enabled, target)
      else (disabled, enabled, insert (c # cs) target))"

definition EnabledGenerators :: "string list \<Rightarrow> string list \<Rightarrow> string list \<Rightarrow> string list" where
  "EnabledGenerators defaultEnabledGenerators defaultDisabledGenerators generatorsOptions =
     (let disabled0 = fold insert defaultDisabledGenerators {};
          all = fold (\<lambda>g all. insert g all \<union> disabled0) defaultEnabledGenerators {};
          (disabled, enabled, target0) = fold optionStep generatorsOptions (disabled0, {}, {});
          target = (if target0 = {} then (all - disabled) \<union> enabled else target0)
      in filter (\<lambda>g. g \<in> target) sortedValidGenerators)"

text \<open>
  The selection as the specification words it, for comparison: the options with a
  \<open>+\<close>, with a \<open>-\<close>, and the bare ones.
\<close>

definition explicitPlus :: "string list \<Rightarrow> string set" where
  "explicitPlus opts = tl ` {opt \<in> set opts. opt \<noteq> [] \<and> hd opt = CHR ''+''}"

definition explicitMinus :: "string list \<Rightarrow> string set" where
  "explicitMinus opts = tl ` {opt \<in> set opts. opt \<noteq> [] \<and> hd opt = CHR ''-''}"

definition bareNames :: "string list \<Rightarrow> string set" where
  "bareNames opts =
     {opt \<in> set opts. opt \<noteq> [] \<and> hd opt \<noteq> CHR ''+'' \<and> hd opt \<noteq> CHR ''-''}"

definition specEffective :: "string list \<Rightarrow> string list \<Rightarrow> string list \<Rightarrow> string set" where
  "specEffective defaultEnabled defaultDisabled opts =
     (if bareNames opts = {}
      then (set defaultEnabled \<union> explicitPlus opts) - (set defaultDisabled \<union> explicitMinus opts)
      else bareNames opts)"

section \<open>Auxiliary notions for the proofs\<close>

text \<open>
  The values on which the compiler panics: those in which it reaches a nil pointer.
  A scalar behind a pointer is not dereferenced further, an opaque record that takes the
  serialization fallback is not walked, and a struct field is visited only when it is
  exported, not of an anonymous struct type, and not zero.
\<close>

fun panics :: "gvalue \<Rightarrow> bool" where
  "panics (VLit p n c lv) = False"
| "panics (VNilPtr t) = True"
| "panics (VPtr e) = (if IsLiteralType (typeOf e) then False else panics e)"
| "panics (VNilSlice t) = False"
| "panics (VSlice t xs) = (\<exists>x \<in> set xs. panics x)"
| "panics (VArray t xs) = (\<exists>x \<in> set xs. panics x)"
| "panics (VNilMap k e) = False"
| "panics (VMap k e kvs) = (\<exists>(a, b) \<in> set kvs. panics a \<or> panics b)"
| "panics (VStruct si fs) =
     (if (list_ex (\<lambda>(f, x). IsUnexportedField f) fs \<or> sNestedUnexported si) \<and>
         (sMarshaler si \<or> sPtrMarshaler si) \<and> (sUnmarshaler si \<or> sPtrUnmarshaler si)
      then False
      else (\<exists>(f, x) \<in> set fs.
              \<not> IsUnexportedField f \<and> \<not> IsAnonymousStruct (typeOf x) \<and> \<not> IsZero x \<and> panics x))"
| "panics (VChan t isNil) = False"
| "panics (VFunc isNil) = False"
| "panics (VInterface p n c isNil) = False"

text \<open>
  The fields of a struct value that \<^verbatim>\<open>generateStructValue\<close> puts into the dictionary
  of the composite literal, the put of one field, and what an entry of the dictionary has
  to be for a field.
\<close>

definition included :: "finfo \<times> gvalue \<Rightarrow> bool" where
  "included p =
     (\<not> IsUnexportedField (fst p) \<and> \<not> IsAnonymousStruct (typeOf (snd p)) \<and> \<not> IsZero (snd p))"

definition fieldPut ::
  "(gvalue \<Rightarrow> error + string) \<Rightarrow> finfo \<times> gvalue \<Rightarrow> (code \<times> code) option outcome" where
  "fieldPut M = (\<lambda>(f, x).
      if IsUnexportedField f \<or> IsAnonymousStruct (typeOf x) then Returns None
      else if \<not> IsZero x
           then bind (generateValue M x False) (\<lambda>r. Returns (Some (Stmt [Id (fName f)], asCode r)))
           else Returns None)"

definition entryOf ::
  "(gvalue \<Rightarrow> error + string) \<Rightarrow> finfo \<times> gvalue \<Rightarrow> code \<times> code \<Rightarrow> bool" where
  "entryOf M p kv =
     (fst kv = Stmt [Id (fName (fst p))] \<and>
      (\<exists>r. generateValue M (snd p) False = Returns r \<and> snd kv = asCode r))"


text \<open>A serializer that answers the empty text where \<open>marshal\<close> fails.\<close>

definition discardError :: "(gvalue \<Rightarrow> error + string) \<Rightarrow> gvalue \<Rightarrow> error + string" where
  "discardError marshal v = (case marshal v of Inl err \<Rightarrow> Inr [] | Inr text \<Rightarrow> Inr text)"

text \<open>Reading the result of an emission: the files it opened.\<close>

fun filesOf :: "(error option \<times> files) outcome \<Rightarrow> files" where
  "filesOf (Returns (err, fs)) = fs"
| "filesOf Panic = []"

text \<open>The names of the functions a file declares, in the order of the file.\<close>

fun funcName :: "code \<Rightarrow> string list" where
  "funcName (Stmt (Func # Id n # rest)) = [n]"
| "funcName _ = []"

definition funcNames :: "jfile option \<Rightarrow> string list" where
  "funcNames f = (case f of None \<Rightarrow> [] | Some jf \<Rightarrow> concat (map funcName (jItems jf)))"

text \<open>
  Reading a rendered composite literal: the entries of its dictionary, and the values it
  gives to a field name.  The approval annotation is carried by a rendered definition
  when the \<open>Annotations\<close> of its \<open>ObjectMeta\<close> have the entry: the approval key with
  the link to the pull request as its value.
\<close>

fun fieldEntries :: "code \<Rightarrow> (code \<times> code) list" where
  "fieldEntries (Stmt []) = []"
| "fieldEntries (Stmt (x # xs)) =
     (case last (x # xs) of Values [Dict d] \<Rightarrow> d | _ \<Rightarrow> [])"
| "fieldEntries _ = []"









text \<open>Example values.\<close>

definition int32Value :: "32 word \<Rightarrow> gvalue" where
  "int32Value w = VLit [] ''int32'' False (Int32V w)"

definition unexportedField :: "string \<Rightarrow> finfo" where
  "unexportedField n = \<lparr>fName = n, fExported = False\<rparr>"




text \<open>\<^verbatim>\<open>Widget{Replicas: 5, Label: nil}\<close>, the example of the specification.\<close>

definition widget :: gvalue where
  "widget = VStruct (namedStruct ''example.com/apps'' ''Widget'')
     [(exportedField ''Replicas'', int32Value 5), (exportedField ''Label'', VNilPtr stringType)]"

text \<open>A record with a private field and no serialization methods.\<close>

definition point :: gvalue where
  "point = VStruct (namedStruct ''example.com/geo'' ''Point'')
     [(exportedField ''X'', int32Value 1), (unexportedField ''y'', int32Value 2)]"

text \<open>
  A \<^verbatim>\<open>time.Time\<close>: private fields, \<^verbatim>\<open>MarshalJSON\<close> on the value and
  \<^verbatim>\<open>UnmarshalJSON\<close> on the pointer; and the \<^verbatim>\<open>metav1.Time\<close> that embeds it.
\<close>

definition opaqueTime :: gvalue where
  "opaqueTime = VStruct
     \<lparr>sPkgPath = ''time'', sName = ''Time'', sAnonymous = False, sNestedUnexported = False,
      sMarshaler = True, sPtrMarshaler = True, sUnmarshaler = False, sPtrUnmarshaler = True\<rparr>
     [(unexportedField ''wall'', VLit [] ''uint64'' False (Uint64V 1)),
      (unexportedField ''ext'', VLit [] ''int64'' False (Int64V 1)),
      (unexportedField ''loc'', VNilPtr (TStruct (namedStruct ''time'' ''Location'') []))]"

definition metaTime :: gvalue where
  "metaTime = VStruct
     \<lparr>sPkgPath = ''k8s.io/apimachinery/pkg/apis/meta/v1'', sName = ''Time'', sAnonymous = False,
      sNestedUnexported = True, sMarshaler = True, sPtrMarshaler = True, sUnmarshaler = False,
      sPtrUnmarshaler = True\<rparr>
     [(exportedField ''Time'', opaqueTime)]"

text \<open>
  The first instant of the year 10000 in UTC, \<^verbatim>\<open>time.Date(10000, 1, 1, 0, 0, 0, 0, time.UTC)\<close>:
  no monotonic reading, 315537897600 seconds since the first of January of the year 1,
  and the nil location that stands for UTC.  \<^verbatim>\<open>Time.MarshalJSON\<close> refuses it, since the
  year is outside of the range from 0 to 9999, and so does \<^verbatim>\<open>json.Marshal\<close>;
  \<open>rangeMarshal\<close> is a serializer that fails on it.
\<close>

definition farTime :: gvalue where
  "farTime = VStruct
     \<lparr>sPkgPath = ''time'', sName = ''Time'', sAnonymous = False, sNestedUnexported = False,
      sMarshaler = True, sPtrMarshaler = True, sUnmarshaler = False, sPtrUnmarshaler = True\<rparr>
     [(unexportedField ''wall'', VLit [] ''uint64'' False (Uint64V 0)),
      (unexportedField ''ext'', VLit [] ''int64'' False (Int64V 315537897600)),
      (unexportedField ''loc'', VNilPtr (TStruct (namedStruct ''time'' ''Location'') []))]"

definition rangeMarshal :: "gvalue \<Rightarrow> error + string" where
  "rangeMarshal v = (if v = farTime then Inl MarshalError else Inr ''{}'')"

text \<open>A definition as the parser leaves it: a name and a group, nothing else set.\<close>

definition simpleCRD :: "string \<Rightarrow> string \<Rightarrow> crd" where
  "simpleCRD name grp =
     \<lparr>crdTypeMeta = VStruct (namedStruct ''k8s.io/apimachinery/pkg/apis/meta/v1'' ''TypeMeta'') [],
      crdName = name, crdAnnotations = None, crdMetaRest = [], crdGroup = grp, crdSpecRest = [],
      crdStatus = VStruct (namedStruct ''k8s.io/apiextensions-apiserver/pkg/apis/apiextensions/v1''
                             ''CustomResourceDefinitionStatus'') []\<rparr>"

definition joinPath :: "string list \<Rightarrow> string" where
  "joinPath parts = (case parts of [] \<Rightarrow> [] | x # xs \<Rightarrow> foldl (\<lambda>a b. a @ ''/'' @ b) x xs)"

text \<open>An environment in which nothing fails.\<close>

definition quietEnv :: env where
  "quietEnv =
     \<lparr>eReadFile = (\<lambda>name. Inr []), eOpen = (\<lambda>name. None), eMarshal = (\<lambda>v. Inr ''{}''),
      eBase = (\<lambda>path. path), eDir = (\<lambda>path. path), eJoin = joinPath,
      eNonVendorPath = (\<lambda>path. path)\<rparr>"

definition noRenderError :: "jfile \<Rightarrow> error option" where
  "noRenderError f = None"

definition sliceOfStrings :: gvalue where
  "sliceOfStrings = VSlice stringType [stringValue ''a'', stringValue ''b'']"

text \<open>The functions each opened file declares.\<close>

definition declaredFunctions :: "(error option \<times> files) outcome \<Rightarrow> string list list" where
  "declaredFunctions r = map (\<lambda>(name, content). funcNames content) (filesOf r)"

text \<open>Two definitions of one group, and roots in which nothing is found.\<close>

definition appleKind :: GroupKind where
  "appleKind = \<lparr>gkGroup = ''example.com'', gkKind = ''apple''\<rparr>"

definition bananaKind :: GroupKind where
  "bananaKind = \<lparr>gkGroup = ''example.com'', gkKind = ''banana''\<rparr>"

definition appleCRD :: crd where
  "appleCRD = simpleCRD ''apples.example.com'' ''example.com''"

definition bananaCRD :: crd where
  "bananaCRD = simpleCRD ''bananas.example.com'' ''example.com''"

definition nothingParsed :: parsed where
  "nothingParsed = \<lparr>pMetav1 = None, pKubeKinds = [], pCRDs = [], pGroupVersions = []\<rparr>"

definition unreadableEnv :: env where
  "unreadableEnv = quietEnv\<lparr>eReadFile := (\<lambda>name. Inl ReadFileError)\<rparr>"

definition headerGenerator :: Generator where
  "headerGenerator =
     \<lparr>HeaderFile = ''hack/boilerplate.go.txt'', Year = ''2022'', GenInstall = True, GenCRD = True\<rparr>"









section \<open>Properties of the generator selection\<close>

lemma fold_insert_set: "fold insert xs A = set xs \<union> A"
  by (induction xs arbitrary: A) auto

lemma fold_all_set:
  "fold (\<lambda>g all. insert g all \<union> D) xs A = A \<union> set xs \<union> (if xs = [] then {} else D)"
  by (induction xs arbitrary: A) auto

lemma explicitPlus_Nil [simp]: "explicitPlus [] = {}"
  by (simp add: explicitPlus_def)

lemma explicitMinus_Nil [simp]: "explicitMinus [] = {}"
  by (simp add: explicitMinus_def)

lemma bareNames_Nil [simp]: "bareNames [] = {}"
  by (simp add: bareNames_def)

lemma explicitPlus_Cons:
  "explicitPlus (opt # opts) =
     (case opt of [] \<Rightarrow> {} | c # cs \<Rightarrow> if c = CHR ''+'' then {cs} else {}) \<union> explicitPlus opts"
  by (cases opt) (force simp: explicitPlus_def)+

lemma explicitMinus_Cons:
  "explicitMinus (opt # opts) =
     (case opt of [] \<Rightarrow> {} | c # cs \<Rightarrow> if c = CHR ''-'' then {cs} else {}) \<union> explicitMinus opts"
  by (cases opt) (force simp: explicitMinus_def)+

lemma bareNames_Cons:
  "bareNames (opt # opts) =
     (case opt of [] \<Rightarrow> {} | c # cs \<Rightarrow> if c \<noteq> CHR ''+'' \<and> c \<noteq> CHR ''-'' then {opt} else {})
       \<union> bareNames opts"
  by (cases opt) (auto simp: bareNames_def)

lemma fold_optionStep:
  "fold optionStep opts (d, e, t) =
     (d \<union> explicitMinus opts, e \<union> explicitPlus opts, t \<union> bareNames opts)"
proof (induction opts arbitrary: d e t)
  case Nil
  show ?case by simp
next
  case (Cons opt opts)
  show ?case
  proof (cases opt)
    case Nil
    then show ?thesis
      by (simp add: Cons.IH explicitPlus_Cons explicitMinus_Cons bareNames_Cons)
  next
    case (Cons c cs)
    then show ?thesis
      by (auto simp: Cons.IH explicitPlus_Cons explicitMinus_Cons bareNames_Cons)
  qed
qed

text \<open>
  C9, as the specification words it, fails: with \<open>crd\<close> disabled by default, the option
  \<open>+crd\<close> enables it in \<^verbatim>\<open>EnabledGenerators\<close>, while
  \<open>(default_enabled \<union> explicit_plus) \ (default_disabled \<union> explicit_minus)\<close> removes it
  again.
\<close>

theorem EnabledGenerators_plus_counterexample:
  "set (EnabledGenerators [''deepcopy''] [''crd''] [''+crd''])
     \<noteq> specEffective [''deepcopy''] [''crd''] [''+crd'']"
proof -
  have "''crd'' \<in> set (EnabledGenerators [''deepcopy''] [''crd''] [''+crd''])"
    by (simp add: EnabledGenerators_def sortedValidGenerators_def)
  moreover have "''crd'' \<notin> specEffective [''deepcopy''] [''crd''] [''+crd'']"
    by (simp add: specEffective_def explicitPlus_Cons explicitMinus_Cons bareNames_Cons)
  ultimately show ?thesis by blast
qed

text \<open>
  C9, amended: the effective generators are the valid generator names, in the canonical
  order of \<^verbatim>\<open>sortedValidGenerators\<close>, that belong to
  \<open>(default_enabled \ (default_disabled \<union> explicit_minus)) \<union> explicit_plus\<close> when no bare
  name is given, and to the set of bare names otherwise.
\<close>

theorem EnabledGenerators_effective:
  "EnabledGenerators defaultEnabled defaultDisabled opts =
     filter (\<lambda>g. g \<in> (if bareNames opts = {}
                        then (set defaultEnabled - (set defaultDisabled \<union> explicitMinus opts))
                               \<union> explicitPlus opts
                        else bareNames opts))
       sortedValidGenerators"
proof -
  have "(if defaultEnabled = [] then {} else set defaultDisabled) \<subseteq> set defaultDisabled"
    by simp
  then have eq:
    "({} \<union> set defaultEnabled \<union> (if defaultEnabled = [] then {} else set defaultDisabled \<union> {}))
          - (set defaultDisabled \<union> {} \<union> explicitMinus opts)
        = set defaultEnabled - (set defaultDisabled \<union> explicitMinus opts)"
    by auto
  show ?thesis
    unfolding EnabledGenerators_def Let_def fold_insert_set fold_all_set fold_optionStep
    using eq by (simp split: if_splits)
qed

theorem EnabledGenerators_effective_witness:
  "EnabledGenerators [''deepcopy'', ''install''] [''crd'', ''client''] [''+crd'', ''-install'']
     = [''deepcopy'', ''crd'']"
  unfolding EnabledGenerators_effective
    [of "[''deepcopy'', ''install'']" "[''crd'', ''client'']" "[''+crd'', ''-install'']"]
  by (simp add: explicitPlus_Cons explicitMinus_Cons bareNames_Cons sortedValidGenerators_def)

section \<open>Properties of the value compiler\<close>

subsection \<open>Where the compiler panics\<close>

lemma sequence_Panic: "(sequence rs = Panic) = (Panic \<in> set rs)"
proof (induction rs)
  case Nil
  show ?case by simp
next
  case (Cons r rs)
  show ?case
  proof (cases r)
    case Panic
    then show ?thesis by simp
  next
    case (Returns x)
    then show ?thesis using Cons.IH by (cases "sequence rs") auto
  qed
qed

lemma bind_Panic: "(bind m f = Panic) = (m = Panic \<or> (\<exists>x. m = Returns x \<and> f x = Panic))"
  by (cases m) auto

lemma valuesOn_typePrefix_Slice [simp]: "valuesOn (typePrefix (TSlice t) om) items \<noteq> Panic"
  by (simp add: typePrefix_def)

lemma valuesOn_typePrefix_Array [simp]: "valuesOn (typePrefix (TArray n t) om) items \<noteq> Panic"
  by (simp add: typePrefix_def)

lemma valuesOn_typePrefix_Map [simp]: "valuesOn (typePrefix (TMap k e) om) items \<noteq> Panic"
  by (simp add: typePrefix_def)

lemma HasUnexportedField_typeOf:
  "HasUnexportedField (typeOf (VStruct si fs)) =
     (list_ex (\<lambda>(f, x). IsUnexportedField f) fs \<or> sNestedUnexported si)"
  by (induction fs) (auto simp: list_ex_iff)

lemma fallback_None:
  "(generateStructWithUnexportedField M (VStruct si fs) pr = None) =
     (\<not> ((sMarshaler si \<or> sPtrMarshaler si) \<and> (sUnmarshaler si \<or> sPtrUnmarshaler si)))"
  by (simp add: Let_def)

lemma sequence_map_Panic: "(sequence (map f xs) = Panic) = (\<exists>x \<in> set xs. f x = Panic)"
  unfolding sequence_Panic by force

lemma struct_prefix_valuesOn [simp]:
  "valuesOn (if om then Some [] else if pr then Some [Op ''&'', asCode ts] else ts') items \<noteq> Panic
     \<longleftrightarrow> (om \<or> pr \<or> ts' \<noteq> None)"
  by (cases ts') auto

lemma generateStructValue_Panic:
  assumes IH: "\<And>p om. p \<in> set fs \<Longrightarrow> (generateValue M (snd p) om = Panic) = panics (snd p)"
  shows "(generateStructValue M (VStruct si fs) pr om = Panic) = panics (VStruct si fs)"
proof (cases "(list_ex (\<lambda>(f, x). IsUnexportedField f) fs \<or> sNestedUnexported si) \<and>
         (sMarshaler si \<or> sPtrMarshaler si) \<and> (sUnmarshaler si \<or> sPtrUnmarshaler si)")
  case True
  then show ?thesis
    by (simp add: Let_def list_ex_iff case_prod_beta)
next
  case False
  then have j: "(if HasUnexportedField (typeOf (VStruct si fs))
               then generateStructWithUnexportedField M (VStruct si fs) pr
               else None) = None"
    unfolding HasUnexportedField_typeOf by (auto simp: Let_def)
  have step: "\<And>p. p \<in> set fs \<Longrightarrow>
      ((case p of (f, x) \<Rightarrow>
          if IsUnexportedField f \<or> IsAnonymousStruct (typeOf x) then Returns None
          else if \<not> IsZero x
               then bind (generateValue M x False) (\<lambda>r. Returns (Some (Stmt [Id (fName f)], asCode r)))
               else Returns None) = Panic)
      = (\<not> IsUnexportedField (fst p) \<and> \<not> IsAnonymousStruct (typeOf (snd p)) \<and>
         \<not> IsZero (snd p) \<and> panics (snd p))"
    by (auto simp: bind_Panic case_prod_beta IH)
  have "(generateStructValue M (VStruct si fs) pr om = Panic) =
        (\<exists>p \<in> set fs. \<not> IsUnexportedField (fst p) \<and> \<not> IsAnonymousStruct (typeOf (snd p)) \<and>
            \<not> IsZero (snd p) \<and> panics (snd p))"
    unfolding generateStructValue.simps Let_def j
    by (simp add: bind_Panic sequence_map_Panic step cong: bex_cong)
  also have "\<dots> = panics (VStruct si fs)"
    using False by (auto simp: case_prod_beta)
  finally show ?thesis .
qed

lemma panics_all:
  "(\<forall>om. (generateValue M v om = Panic) = panics v) \<and>
   (\<forall>om. (generatePtrValue M v om = Panic) = (Kind (typeOf v) = KPtr \<and> panics v)) \<and>
   (\<forall>pr om. (generateStructValue M v pr om = Panic) = (Kind (typeOf v) = KStruct \<and> panics v))"
proof (induction v)
  case (VLit p n c lv)
  show ?case by simp
next
  case (VNilPtr t)
  show ?case by simp
next
  case (VPtr e)
  then show ?case by (auto simp: bind_Panic)
next
  case (VNilSlice t)
  show ?case by simp
next
  case (VSlice t xs)
  then show ?case by (simp add: bind_Panic sequence_map_Panic)
next
  case (VArray t xs)
  then show ?case by (simp add: bind_Panic sequence_map_Panic)
next
  case (VNilMap k e)
  show ?case by simp
next
  case (VMap k e kvs)
  have IH: "\<And>p om. p \<in> set kvs \<Longrightarrow>
      (generateValue M (fst p) om = Panic) = panics (fst p) \<and>
      (generateValue M (snd p) om = Panic) = panics (snd p)"
  proof -
    fix p :: "gvalue \<times> gvalue" and om
    assume "p \<in> set kvs"
    then show "(generateValue M (fst p) om = Panic) = panics (fst p) \<and>
      (generateValue M (snd p) om = Panic) = panics (snd p)"
      using VMap.IH(1) [of p "fst p"] VMap.IH(2) [of p "snd p"]
      by (simp add: fsts.simps snds.simps)
  qed
  let ?F = "\<lambda>(kv, vv).
          bind (generateValue M kv False) (\<lambda>kc.
          bind (generateValue M vv True) (\<lambda>vc. Returns (Some (asCode kc, asCode vc))))"
  have step: "\<And>p. p \<in> set kvs \<Longrightarrow> (?F p = Panic) = (panics (fst p) \<or> panics (snd p))"
  proof -
    fix p :: "gvalue \<times> gvalue"
    assume p: "p \<in> set kvs"
    show "(?F p = Panic) = (panics (fst p) \<or> panics (snd p))"
      using IH [OF p, of False] IH [OF p, of True]
      by (cases "generateValue M (fst p) False") (auto simp: bind_Panic case_prod_beta)
  qed
  have seq: "(sequence (map ?F kvs) = Panic) = (\<exists>p \<in> set kvs. panics (fst p) \<or> panics (snd p))"
    unfolding sequence_map_Panic by (rule bex_cong [OF refl]) (rule step)
  have "\<And>om. (generateValue M (VMap k e kvs) om = Panic) = (sequence (map ?F kvs) = Panic)"
    by (simp add: bind_Panic)
  then show ?case
    unfolding seq by (simp add: case_prod_beta)
next
  case (VStruct si fs)
  have IH: "\<And>p om. p \<in> set fs \<Longrightarrow> (generateValue M (snd p) om = Panic) = panics (snd p)"
  proof -
    fix p :: "finfo \<times> gvalue" and om
    assume "p \<in> set fs"
    then show "(generateValue M (snd p) om = Panic) = panics (snd p)"
      using VStruct.IH [of p "snd p"] by (simp add: snds.simps)
  qed
  have s: "\<And>pr om. (generateStructValue M (VStruct si fs) pr om = Panic) = panics (VStruct si fs)"
    by (rule generateStructValue_Panic) (rule IH)
  show ?case
    by (simp add: s del: generateStructValue.simps panics.simps)
next
  case (VChan t isNil)
  show ?case by simp
next
  case (VFunc isNil)
  show ?case by simp
next
  case (VInterface p n c isNil)
  show ?case by simp
qed

lemma generateValue_Panic: "(generateValue M v om = Panic) = panics v"
  using panics_all [of M v] by blast

lemma generatePtrValue_other:
  assumes "\<not> IsLiteralType (typeOf e)" and "Kind (typeOf e) \<noteq> KStruct"
  shows "generatePtrValue M (VPtr e) om =
           bind (generateValue M e False) (\<lambda>r. Returns (Some [Op ''&'', asCode r]))"
proof (cases "generateValue M e False")
  case Panic
  then have "generateValue M e True = Panic"
    by (simp add: generateValue_Panic)
  with Panic assms show ?thesis by simp
next
  case (Returns r)
  then have "generateValue M e True \<noteq> Panic"
    by (metis generateValue_Panic outcome.distinct(1))
  then obtain r' where "generateValue M e True = Returns r'"
    by (cases "generateValue M e True") auto
  with Returns assms show ?thesis by simp
qed

subsection \<open>Scalars and pointers\<close>

text \<open>
  C5: a scalar of a custom named type is rendered as the literal wrapped in a conversion
  to the named type, \<open>TypeName(literal)\<close>; a non-nil pointer to such a scalar is rendered
  as the call of the pointer-of helper of its kind on the literal, wrapped in a cast to
  the pointer-to-named-type, \<open>(*TypeName)(pointer.Kind(literal))\<close>.
\<close>

theorem custom_scalar_conversion:
  "generateValue M (VLit p n True lv) om = Returns (Some [Qual p n, Parens (Stmt [Lit lv])]) \<and>
   generateValue M (VPtr (VLit p n True lv)) om =
     Returns (Some [Parens (Stmt [Op ''*'', Qual p n]),
                    Parens (Stmt [Qual ''github.com/zoumo/golib/pointer''
                                    (Capitalize (kindString (kindOf lv))),
                                  Call [Stmt [Lit lv]]])])"
  by (simp add: generateBuiltinLiteralValue_def)

theorem custom_scalar_conversion_witness:
  "generateValue (\<lambda>v. Inr []) (VLit ''k8s.io/api/core/v1'' ''Protocol'' True (StringV ''TCP'')) False
     = Returns (Some [Qual ''k8s.io/api/core/v1'' ''Protocol'', Parens (Stmt [Lit (StringV ''TCP'')])]) \<and>
   generateValue (\<lambda>v. Inr []) (VPtr (VLit ''k8s.io/api/core/v1'' ''Protocol'' True (StringV ''TCP''))) False
     = Returns (Some [Parens (Stmt [Op ''*'', Qual ''k8s.io/api/core/v1'' ''Protocol'']),
                    Parens (Stmt [Qual ''github.com/zoumo/golib/pointer'' ''String'',
                                  Call [Stmt [Lit (StringV ''TCP'')]]])])"
  using custom_scalar_conversion [of "\<lambda>v. Inr []" "''k8s.io/api/core/v1''" "''Protocol''" "StringV ''TCP''" False]
  by (simp add: char_of_def bit_0 bit_Suc)

text \<open>
  C6: a non-nil pointer is rendered by the pointer-literal renderer when the pointee is a
  scalar, as the pointee record with \<open>ptrResult\<close> set when the pointee is a record, and
  otherwise as the rendering of the pointee prefixed with the address-of operator.
\<close>

theorem pointer_dispatch:
  "generateValue M (VPtr e) om =
     (if IsLiteralType (typeOf e) then Returns (generatePtrLiteralValue e)
      else if Kind (typeOf e) = KStruct then generateStructValue M e True om
      else bind (generateValue M e False) (\<lambda>r. Returns (Some [Op ''&'', asCode r])))"
proof (cases "\<not> IsLiteralType (typeOf e) \<and> Kind (typeOf e) \<noteq> KStruct")
  case True
  then show ?thesis
    using generatePtrValue_other [of e M om] by (simp del: generatePtrValue.simps)
next
  case False
  then show ?thesis by auto
qed

theorem pointer_dispatch_witness:
  "generateValue (\<lambda>v. Inr []) (VPtr (VNilMap stringType stringType)) True
     = Returns (Some [Op ''&'',
         Stmt [MapOf (Stmt [Id ''string'']), Stmt [Id ''string''], Values [Dict []]]])"
  using pointer_dispatch [of "\<lambda>v. Inr []" "VNilMap stringType stringType" True]
  by (simp add: stringType_def typePrefix_def del: generateValue.simps(3))

text \<open>
  C10: for a non-nil pointer whose pointee is neither a scalar nor a record, \<open>omitType\<close>
  has no effect: either way the result is the rendering of the pointee, with its type,
  prefixed with the address-of operator.
\<close>

theorem pointer_omitType_irrelevant:
  assumes "\<not> IsLiteralType (typeOf e)" and "Kind (typeOf e) \<noteq> KStruct"
  shows "generateValue M (VPtr e) True = generateValue M (VPtr e) False \<and>
         generateValue M (VPtr e) True =
           bind (generateValue M e False) (\<lambda>r. Returns (Some [Op ''&'', asCode r]))"
  using generatePtrValue_other [OF assms, of M True] generatePtrValue_other [OF assms, of M False]
  by (simp del: generatePtrValue.simps)

theorem pointer_omitType_irrelevant_witness:
  "\<not> IsLiteralType (typeOf sliceOfStrings) \<and> Kind (typeOf sliceOfStrings) \<noteq> KStruct \<and>
   generateValue (\<lambda>v. Inr []) (VPtr sliceOfStrings) True
     = generateValue (\<lambda>v. Inr []) (VPtr sliceOfStrings) False \<and>
   generateValue (\<lambda>v. Inr []) (VPtr sliceOfStrings) True
     = Returns (Some [Op ''&'',
         Stmt [Index [], Stmt [Id ''string''],
               Values [Stmt [Line, Stmt [Lit (StringV ''a'')]],
                       Stmt [Line, Stmt [Lit (StringV ''b'')]],
                       Stmt [Line]]]])"
proof -
  have a: "\<not> IsLiteralType (typeOf sliceOfStrings)" and b: "Kind (typeOf sliceOfStrings) \<noteq> KStruct"
    by (simp_all add: sliceOfStrings_def)
  have c: "generateValue (\<lambda>v. Inr []) sliceOfStrings False
     = Returns (Some [Index [], Stmt [Id ''string''],
               Values [Stmt [Line, Stmt [Lit (StringV ''a'')]],
                       Stmt [Line, Stmt [Lit (StringV ''b'')]],
                       Stmt [Line]]])"
    by (simp add: sliceOfStrings_def stringValue_def stringType_def typePrefix_def
          generateBuiltinLiteralValue_def)
  show ?thesis
    using pointer_omitType_irrelevant [OF a b, of "\<lambda>v. Inr []"] a b c by simp
qed

subsection \<open>Records\<close>







lemma list_all2_keys:
  "list_all2 (entryOf M) ps d \<Longrightarrow> map fst d = map (\<lambda>p. Stmt [Id (fName (fst p))]) ps"
  by (induction rule: list_all2_induct) (auto simp: entryOf_def)

lemma included_filter:
  "filter included fs =
     filter (\<lambda>(f, x). \<not> IsUnexportedField f \<and> \<not> IsAnonymousStruct (typeOf x) \<and> \<not> IsZero x) fs"
  by (rule filter_cong) (auto simp: included_def)













text \<open>
  The example of the specification, \<^verbatim>\<open>Widget{Replicas: 5, Label: nil}\<close>: the nil pointer
  is the zero value of its type, and is left out.
\<close>

lemma widget_literal:
  "GenerateValue (\<lambda>v. Inr []) widget =
     Returns (Some [Qual ''example.com/apps'' ''Widget'',
                    Values [Dict [(Stmt [Id ''Replicas''], Stmt [Lit (Int32V 5)])]]])"
  by (simp add: GenerateValue_def widget_def namedStruct_def exportedField_def
        IsUnexportedField_def int32Value_def stringType_def dictOf_def
        generateBuiltinLiteralValue_def)

text \<open>
  A \<^verbatim>\<open>metav1.Time\<close> has no private field of its own, only the \<^verbatim>\<open>time.Time\<close> it
  embeds, and takes the serialization fallback as a whole.
\<close>

lemma metaTime_fallback:
  \<open>generateValue (\<lambda>v. Inr ''"2022-01-01T00:00:00Z"'') metaTime False =
     Returns (Some [Func, Params [], Stmt [Qual ''k8s.io/apimachinery/pkg/apis/meta/v1'' ''Time''],
         Block
          [Stmt [Id ''jsonStr'', Op '':='', Lit (StringV ''"2022-01-01T00:00:00Z"'')],
           Stmt [Var, Id ''obj'', Stmt [Qual ''k8s.io/apimachinery/pkg/apis/meta/v1'' ''Time'']],
           Stmt [Qual ''encoding/json'' ''Unmarshal'',
                 Call [Stmt [Index [], Byte, Parens (Stmt [Id ''jsonStr''])],
                       Stmt [Op ''&'', Id ''obj'']]],
           Stmt [Return [Stmt [Id ''obj'']]]],
         Call []])\<close>
  by (simp add: metaTime_def exportedField_def IsUnexportedField_def Let_def)

text \<open>
  C2, as stated, fails: \<^verbatim>\<open>Point\<close> has a private field \<open>y\<close> and no serialization
  methods, and is rendered as the composite literal \<^verbatim>\<open>geo.Point{X: 1}\<close>.
\<close>

theorem private_field_counterexample:
  "HasUnexportedField (typeOf point) \<and>
   generateValue (\<lambda>v. Inr []) point False =
     Returns (Some [Qual ''example.com/geo'' ''Point'',
                    Values [Dict [(Stmt [Id ''X''], Stmt [Lit (Int32V 1)])]]])"
  by (simp add: point_def namedStruct_def exportedField_def unexportedField_def
        IsUnexportedField_def int32Value_def dictOf_def generateBuiltinLiteralValue_def)

text \<open>
  C2, amended: a record with a private field whose type, or the pointer to it, implements
  both \<^verbatim>\<open>json.Marshaler\<close> and \<^verbatim>\<open>json.Unmarshaler\<close> is never rendered as a composite
  literal: it is an immediately invoked function without arguments that declares the text
  literal and a variable of the record type, deserializes the one into the other, and
  returns the variable, or its address when \<open>ptrResult\<close> is set.
\<close>

theorem opaque_record_fallback:
  assumes "HasUnexportedField (typeOf (VStruct si fs))"
      and "(sMarshaler si \<or> sPtrMarshaler si) \<and> (sUnmarshaler si \<or> sPtrUnmarshaler si)"
  shows "generateStructValue M (VStruct si fs) ptrResult omitType =
     Returns (Some ([Func, Params []] @ (if ptrResult then [Op ''*''] else []) @
        [Stmt [Qual (sPkgPath si) (sName si)],
         Block
          [Stmt [Id ''jsonStr'', Op '':='',
                 Lit (StringV (case M (VStruct si fs) of Inl err \<Rightarrow> [] | Inr text \<Rightarrow> text))],
           Stmt [Var, Id ''obj'', Stmt [Qual (sPkgPath si) (sName si)]],
           Stmt [Qual ''encoding/json'' ''Unmarshal'',
                 Call [Stmt [Index [], Byte, Parens (Stmt [Id ''jsonStr''])],
                       Stmt [Op ''&'', Id ''obj'']]],
           Stmt [Return [Stmt (if ptrResult then [Op ''&'', Id ''obj''] else [Id ''obj''])]]],
         Call []]))"
  using assms by (simp add: Let_def)

theorem opaque_record_fallback_witness:
  \<open>HasUnexportedField (typeOf opaqueTime) \<and>
   generateValue (\<lambda>v. Inr ''"2022-01-01T00:00:00Z"'') (VPtr opaqueTime) False =
     Returns (Some [Func, Params [], Op ''*'', Stmt [Qual ''time'' ''Time''],
         Block
          [Stmt [Id ''jsonStr'', Op '':='', Lit (StringV ''"2022-01-01T00:00:00Z"'')],
           Stmt [Var, Id ''obj'', Stmt [Qual ''time'' ''Time'']],
           Stmt [Qual ''encoding/json'' ''Unmarshal'',
                 Call [Stmt [Index [], Byte, Parens (Stmt [Id ''jsonStr''])],
                       Stmt [Op ''&'', Id ''obj'']]],
           Stmt [Return [Stmt [Op ''&'', Id ''obj'']]]],
         Call []])\<close>
proof -
  let ?si = "\<lparr>sPkgPath = ''time'', sName = ''Time'', sAnonymous = False,
      sNestedUnexported = False, sMarshaler = True, sPtrMarshaler = True, sUnmarshaler = False,
      sPtrUnmarshaler = True\<rparr>"
  let ?fs = "[(unexportedField ''wall'', VLit [] ''uint64'' False (Uint64V 1)),
      (unexportedField ''ext'', VLit [] ''int64'' False (Int64V 1)),
      (unexportedField ''loc'', VNilPtr (TStruct (namedStruct ''time'' ''Location'') []))]"
  have a: "HasUnexportedField (typeOf (VStruct ?si ?fs))"
    by (simp add: unexportedField_def IsUnexportedField_def)
  have b: "(sMarshaler ?si \<or> sPtrMarshaler ?si) \<and> (sUnmarshaler ?si \<or> sPtrUnmarshaler ?si)"
    by simp
  let ?M = \<open>\<lambda>v :: gvalue. Inr ''"2022-01-01T00:00:00Z"'' :: error + string\<close>
  have c: "generateValue ?M (VPtr (VStruct ?si ?fs)) False
             = generateStructValue ?M (VStruct ?si ?fs) True False"
    by (simp del: generateStructValue.simps)
  show ?thesis
    unfolding opaqueTime_def c
    using a opaque_record_fallback [OF a b, of ?M True False]
    by (simp del: generateStructValue.simps typeOf.simps HasUnexportedField.simps)
qed

subsection \<open>Serialization errors\<close>

lemma fallback_discardError:
  "generateStructWithUnexportedField (discardError M) v pr = generateStructWithUnexportedField M v pr"
proof (cases v)
  case (VStruct si fs)
  then show ?thesis
    by (cases "M (VStruct si fs)") (simp_all add: discardError_def Let_def)
qed simp_all

lemma generateStructValue_cong:
  assumes "\<And>f x. (f, x) \<in> set fs \<Longrightarrow> generateValue M' x False = generateValue M x False"
      and "generateStructWithUnexportedField M' (VStruct si fs) pr
             = generateStructWithUnexportedField M (VStruct si fs) pr"
  shows "generateStructValue M' (VStruct si fs) pr om = generateStructValue M (VStruct si fs) pr om"
proof -
  have m: "map (fieldPut M') fs = map (fieldPut M) fs"
    by (rule map_cong [OF refl]) (auto simp: fieldPut_def assms(1))
  show ?thesis
    unfolding generateStructValue.simps fieldPut_def [symmetric] m assms(2) ..
qed

lemma discardError_all:
  "(\<forall>om. generateValue (discardError M) v om = generateValue M v om) \<and>
   (\<forall>om. generatePtrValue (discardError M) v om = generatePtrValue M v om) \<and>
   (\<forall>pr om. generateStructValue (discardError M) v pr om = generateStructValue M v pr om)"
proof (induction v)
  case (VSlice t xs)
  then have m: "map (\<lambda>x. generateValue (discardError M) x True) xs = map (\<lambda>x. generateValue M x True) xs"
    by simp
  show ?case by (simp add: m)
next
  case (VArray t xs)
  then have m: "map (\<lambda>x. generateValue (discardError M) x True) xs = map (\<lambda>x. generateValue M x True) xs"
    by simp
  show ?case by (simp add: m)
next
  case (VMap k e kvs)
  have "\<And>p. p \<in> set kvs \<Longrightarrow>
      (\<forall>om. generateValue (discardError M) (fst p) om = generateValue M (fst p) om) \<and>
      (\<forall>om. generateValue (discardError M) (snd p) om = generateValue M (snd p) om)"
  proof -
    fix p :: "gvalue \<times> gvalue"
    assume "p \<in> set kvs"
    then show "(\<forall>om. generateValue (discardError M) (fst p) om = generateValue M (fst p) om) \<and>
      (\<forall>om. generateValue (discardError M) (snd p) om = generateValue M (snd p) om)"
      using VMap.IH(1) [of p "fst p"] VMap.IH(2) [of p "snd p"]
      by (simp add: fsts.simps snds.simps)
  qed
  then have m: "map (\<lambda>(kv, vv).
              bind (generateValue (discardError M) kv False) (\<lambda>kc.
              bind (generateValue (discardError M) vv True) (\<lambda>vc.
                Returns (Some (asCode kc, asCode vc))))) kvs
           = map (\<lambda>(kv, vv).
              bind (generateValue M kv False) (\<lambda>kc.
              bind (generateValue M vv True) (\<lambda>vc.
                Returns (Some (asCode kc, asCode vc))))) kvs"
    by (intro map_cong [OF refl]) (simp add: case_prod_beta)
  show ?case by (simp add: m)
next
  case (VStruct si fs)
  have IH: "\<And>f x. (f, x) \<in> set fs \<Longrightarrow>
      generateValue (discardError M) x False = generateValue M x False"
  proof -
    fix f :: finfo and x :: gvalue
    assume "(f, x) \<in> set fs"
    then show "generateValue (discardError M) x False = generateValue M x False"
      using VStruct.IH [of "(f, x)" x] by (simp add: snds.simps)
  qed
  have "\<And>pr om. generateStructValue (discardError M) (VStruct si fs) pr om
                  = generateStructValue M (VStruct si fs) pr om"
    by (rule generateStructValue_cong [OF IH fallback_discardError])
  then show ?case
    by (simp del: generateStructValue.simps)
qed simp_all

lemma generateValue_discardError:
  "generateValue (discardError M) v om = generateValue M v om"
  using discardError_all [of M v] by blast

lemma renderGroup_discardError: "renderGroup (discardError M) crds grp = renderGroup M crds grp"
  by (simp add: renderGroup_def GenerateValue_def generateValue_discardError
        del: generateValue.simps)

text \<open>
  C3, as stated, fails: \<^verbatim>\<open>json.Marshal\<close> fails on the \<^verbatim>\<open>time.Time\<close> of the year 10000,
  and the value compiler returns all the same: the rebuild function, with the empty text
  as its literal.  No error leaves the compiler.
\<close>

theorem marshal_error_counterexample:
  "rangeMarshal farTime = Inl MarshalError \<and>
   GenerateValue rangeMarshal farTime =
     Returns (Some [Func, Params [], Stmt [Qual ''time'' ''Time''],
         Block
          [Stmt [Id ''jsonStr'', Op '':='', Lit (StringV [])],
           Stmt [Var, Id ''obj'', Stmt [Qual ''time'' ''Time'']],
           Stmt [Qual ''encoding/json'' ''Unmarshal'',
                 Call [Stmt [Index [], Byte, Parens (Stmt [Id ''jsonStr''])],
                       Stmt [Op ''&'', Id ''obj'']]],
           Stmt [Return [Stmt [Id ''obj'']]]],
         Call []])"
proof -
  have a: "rangeMarshal farTime = Inl MarshalError"
    by (simp add: rangeMarshal_def)
  show ?thesis
    unfolding GenerateValue_def
    using a by (simp add: farTime_def unexportedField_def IsUnexportedField_def Let_def)
qed

text \<open>
  C3, amended: the error of \<^verbatim>\<open>json.Marshal\<close> is dropped.  When the serialization of a
  record that takes the fallback fails, the compiler returns the rebuild function with
  the empty text as its literal; and the compiler on any value, and the emission of any
  group, give what they give with a serializer that answers the empty text instead of
  failing.  A serialization failure is not propagated, and it neither aborts the emission
  of the group nor keeps its file from being written.
\<close>

theorem marshal_error_dropped:
  assumes "HasUnexportedField (typeOf (VStruct si fs))"
      and "(sMarshaler si \<or> sPtrMarshaler si) \<and> (sUnmarshaler si \<or> sPtrUnmarshaler si)"
      and "M (VStruct si fs) = Inl err"
  shows "generateStructValue M (VStruct si fs) ptrResult omitType =
           Returns (Some ([Func, Params []] @ (if ptrResult then [Op ''*''] else []) @
             [Stmt [Qual (sPkgPath si) (sName si)],
              Block
               [Stmt [Id ''jsonStr'', Op '':='', Lit (StringV [])],
                Stmt [Var, Id ''obj'', Stmt [Qual (sPkgPath si) (sName si)]],
                Stmt [Qual ''encoding/json'' ''Unmarshal'',
                      Call [Stmt [Index [], Byte, Parens (Stmt [Id ''jsonStr''])],
                            Stmt [Op ''&'', Id ''obj'']]],
                Stmt [Return [Stmt (if ptrResult then [Op ''&'', Id ''obj''] else [Id ''obj''])]]],
              Call []])) \<and>
         generateValue M v om = generateValue (discardError M) v om \<and>
         GenerateGroup (e\<lparr>eMarshal := M\<rparr>) renderFails headerText crds grp dirName goPackageName written
           = GenerateGroup (e\<lparr>eMarshal := discardError M\<rparr>) renderFails headerText crds grp
               dirName goPackageName written"
proof -
  have a: "generateStructValue M (VStruct si fs) ptrResult omitType =
           Returns (Some ([Func, Params []] @ (if ptrResult then [Op ''*''] else []) @
             [Stmt [Qual (sPkgPath si) (sName si)],
              Block
               [Stmt [Id ''jsonStr'', Op '':='', Lit (StringV [])],
                Stmt [Var, Id ''obj'', Stmt [Qual (sPkgPath si) (sName si)]],
                Stmt [Qual ''encoding/json'' ''Unmarshal'',
                      Call [Stmt [Index [], Byte, Parens (Stmt [Id ''jsonStr''])],
                            Stmt [Op ''&'', Id ''obj'']]],
                Stmt [Return [Stmt (if ptrResult then [Op ''&'', Id ''obj''] else [Id ''obj''])]]],
              Call []]))"
    using assms by (simp add: Let_def)
  have b: "generateValue M v om = generateValue (discardError M) v om"
    by (simp add: generateValue_discardError del: generateValue.simps)
  have c: "GenerateGroup (e\<lparr>eMarshal := M\<rparr>) renderFails headerText crds grp dirName goPackageName written
           = GenerateGroup (e\<lparr>eMarshal := discardError M\<rparr>) renderFails headerText crds grp
               dirName goPackageName written"
    by (simp add: GenerateGroup_def renderGroup_discardError writeFile_def Let_def)
  from a b c show ?thesis by blast
qed

theorem marshal_error_dropped_witness:
  "HasUnexportedField (typeOf farTime) \<and>
   rangeMarshal farTime = Inl MarshalError \<and>
   generateStructValue rangeMarshal farTime True False =
     Returns (Some [Func, Params [], Op ''*'', Stmt [Qual ''time'' ''Time''],
         Block
          [Stmt [Id ''jsonStr'', Op '':='', Lit (StringV [])],
           Stmt [Var, Id ''obj'', Stmt [Qual ''time'' ''Time'']],
           Stmt [Qual ''encoding/json'' ''Unmarshal'',
                 Call [Stmt [Index [], Byte, Parens (Stmt [Id ''jsonStr''])],
                       Stmt [Op ''&'', Id ''obj'']]],
           Stmt [Return [Stmt [Op ''&'', Id ''obj'']]]],
         Call []]) \<and>
   generateValue rangeMarshal (VPtr farTime) False
     = generateValue (discardError rangeMarshal) (VPtr farTime) False \<and>
   GenerateGroup (quietEnv\<lparr>eMarshal := rangeMarshal\<rparr>) noRenderError []
       [(appleKind, appleCRD)] ''example.com'' ''example'' ''example'' []
     = GenerateGroup (quietEnv\<lparr>eMarshal := discardError rangeMarshal\<rparr>) noRenderError []
         [(appleKind, appleCRD)] ''example.com'' ''example'' ''example'' []"
proof -
  let ?si = "\<lparr>sPkgPath = ''time'', sName = ''Time'', sAnonymous = False,
      sNestedUnexported = False, sMarshaler = True, sPtrMarshaler = True, sUnmarshaler = False,
      sPtrUnmarshaler = True\<rparr>"
  let ?fs = "[(unexportedField ''wall'', VLit [] ''uint64'' False (Uint64V 0)),
      (unexportedField ''ext'', VLit [] ''int64'' False (Int64V 315537897600)),
      (unexportedField ''loc'', VNilPtr (TStruct (namedStruct ''time'' ''Location'') []))]"
  have f: "farTime = VStruct ?si ?fs"
    by (simp add: farTime_def)
  have a: "HasUnexportedField (typeOf (VStruct ?si ?fs))"
    by (simp add: unexportedField_def IsUnexportedField_def)
  have b: "(sMarshaler ?si \<or> sPtrMarshaler ?si) \<and> (sUnmarshaler ?si \<or> sPtrUnmarshaler ?si)"
    by simp
  have c: "rangeMarshal (VStruct ?si ?fs) = Inl MarshalError"
    unfolding f [symmetric] by (simp add: rangeMarshal_def)
  from marshal_error_dropped [where M = rangeMarshal and si = ?si and fs = ?fs
      and err = MarshalError and ptrResult = True and omitType = False and v = "VPtr farTime"
      and om = False and e = quietEnv and renderFails = noRenderError and headerText = "[]"
      and crds = "[(appleKind, appleCRD)]" and grp = "''example.com''" and dirName = "''example''"
      and goPackageName = "''example''" and written = "[]", OF a b c] a c
  show ?thesis
    unfolding f [symmetric]
    by (simp del: generateStructValue.simps generateValue.simps typeOf.simps HasUnexportedField.simps)
qed

section \<open>Properties of the group artifact emitter\<close>

text \<open>
  C1 does not hold of the code: \<^verbatim>\<open>GenerateGroup\<close> ranges over the map of the definitions
  and neither sorts what it collects nor the file items, unlike \<^verbatim>\<open>GenerateScheme\<close> and
  \<^verbatim>\<open>GenerateGroupInstall\<close>, which sort their packages.  For a group with the two
  definitions \<open>apple\<close> and \<open>banana\<close>, the two orders in which the range loop may yield
  them give two different files: the constructor functions, and the calls in the
  aggregator, come in the order of the iteration.
\<close>

theorem definition_order_follows_map_iteration:
  "declaredFunctions (GenerateGroup quietEnv noRenderError []
       [(appleKind, appleCRD), (bananaKind, bananaCRD)] ''example.com'' ''example'' ''example'' [])
     = [[''NewAppleCRD'', ''NewBananaCRD'', ''NewCustomResourceDefinitions'']] \<and>
   declaredFunctions (GenerateGroup quietEnv noRenderError []
       [(bananaKind, bananaCRD), (appleKind, appleCRD)] ''example.com'' ''example'' ''example'' [])
     = [[''NewBananaCRD'', ''NewAppleCRD'', ''NewCustomResourceDefinitions'']] \<and>
   GenerateGroup quietEnv noRenderError []
       [(appleKind, appleCRD), (bananaKind, bananaCRD)] ''example.com'' ''example'' ''example'' []
     \<noteq> GenerateGroup quietEnv noRenderError []
       [(bananaKind, bananaCRD), (appleKind, appleCRD)] ''example.com'' ''example'' ''example'' []"
proof -
  have a: "declaredFunctions (GenerateGroup quietEnv noRenderError []
       [(appleKind, appleCRD), (bananaKind, bananaCRD)] ''example.com'' ''example'' ''example'' [])
     = [[''NewAppleCRD'', ''NewBananaCRD'', ''NewCustomResourceDefinitions'']]"
    by (simp add: quietEnv_def GenerateGroup_def renderGroup_def GenerateValue_def
        appleKind_def bananaKind_def appleCRD_def bananaCRD_def
        simpleCRD_def crdValue_def namedStruct_def exportedField_def
        IsUnexportedField_def stringValue_def
        annotationsValue_def stringType_def dictOf_def generateBuiltinLiteralValue_def
        writeFile_def noRenderError_def joinPath_def declaredFunctions_def funcNames_def
        crdsFile_def crdItems_def crdFuncName_def setFileDefault_def NewFile_def Let_def
        char_of_def bit_0 bit_Suc)
  have b: "declaredFunctions (GenerateGroup quietEnv noRenderError []
       [(bananaKind, bananaCRD), (appleKind, appleCRD)] ''example.com'' ''example'' ''example'' [])
     = [[''NewBananaCRD'', ''NewAppleCRD'', ''NewCustomResourceDefinitions'']]"
    by (simp add: quietEnv_def GenerateGroup_def renderGroup_def GenerateValue_def
        appleKind_def bananaKind_def appleCRD_def bananaCRD_def
        simpleCRD_def crdValue_def namedStruct_def exportedField_def
        IsUnexportedField_def stringValue_def
        annotationsValue_def stringType_def dictOf_def generateBuiltinLiteralValue_def
        writeFile_def noRenderError_def joinPath_def declaredFunctions_def funcNames_def
        crdsFile_def crdItems_def crdFuncName_def setFileDefault_def NewFile_def Let_def
        char_of_def bit_0 bit_Suc)
  have "GenerateGroup quietEnv noRenderError []
       [(appleKind, appleCRD), (bananaKind, bananaCRD)] ''example.com'' ''example'' ''example'' []
     \<noteq> GenerateGroup quietEnv noRenderError []
       [(bananaKind, bananaCRD), (appleKind, appleCRD)] ''example.com'' ''example'' ''example'' []"
  proof
    assume "GenerateGroup quietEnv noRenderError []
       [(appleKind, appleCRD), (bananaKind, bananaCRD)] ''example.com'' ''example'' ''example'' []
     = GenerateGroup quietEnv noRenderError []
       [(bananaKind, bananaCRD), (appleKind, appleCRD)] ''example.com'' ''example'' ''example'' []"
    then have "[[''NewAppleCRD'', ''NewBananaCRD'', ''NewCustomResourceDefinitions'']]
       = [[''NewBananaCRD'', ''NewAppleCRD'', ''NewCustomResourceDefinitions'']]"
      using a b by simp
    then show False by simp
  qed
  with a b show ?thesis by blast
qed

text \<open>
  C8, as stated, fails: with a header file configured that cannot be read, \<^verbatim>\<open>Generate\<close>
  returns the read error although the roots hold no definition.
\<close>

theorem no_definitions_counterexample:
  "pMetav1 nothingParsed = None \<and> pKubeKinds nothingParsed = [] \<and>
   Generate headerGenerator unreadableEnv noRenderError nothingParsed
     = Returns (Some ReadFileError, [])"
  by (simp add: Generate_def nothingParsed_def headerGenerator_def unreadableEnv_def quietEnv_def)

text \<open>
  C8, amended: when no eligible definition is found (no package of the roots imports the
  metadata package, or there are no kinds), the emission writes no artifact, and it
  returns success unless a header file is configured and reading it fails, in which case
  it returns that error.
\<close>

theorem no_definitions_no_artifact:
  assumes "pMetav1 p = None \<or> pKubeKinds p = []"
  shows "Generate g e renderFails p =
           Returns ((if HeaderFile g = [] then None
                     else case eReadFile e (HeaderFile g) of
                            Inl err \<Rightarrow> Some err | Inr headerBytes \<Rightarrow> None), [])"
  using assms by (auto simp: Generate_def Let_def split: sum.splits option.splits)

theorem no_definitions_no_artifact_witness:
  "pMetav1 nothingParsed = None \<and>
   Generate headerGenerator quietEnv noRenderError nothingParsed = Returns (None, [])"
proof -
  have a: "pMetav1 nothingParsed = None \<or> pKubeKinds nothingParsed = []"
    by (simp add: nothingParsed_def)
  from no_definitions_no_artifact [OF a, of headerGenerator quietEnv noRenderError]
  show ?thesis
    by (simp add: headerGenerator_def quietEnv_def nothingParsed_def)
qed

subsection \<open>The approval annotation of the protected groups\<close>



lemma fieldEntries_composite [simp]: "fieldEntries (Stmt (ts @ [Values [Dict d]])) = d"
  by (cases ts) simp_all







lemma IsZero_annotationsValue [simp]: "IsZero (annotationsValue a) = (a = None)"
  by (cases a) (simp_all add: annotationsValue_def)

lemma typeOf_annotationsValue [simp]: "typeOf (annotationsValue a) = TMap stringType stringType"
  by (cases a) (simp_all add: annotationsValue_def)

lemma included_annotations [simp]:
  "included (exportedField ''Annotations'', annotationsValue a) = (a \<noteq> None)"
  by (simp add: included_def exportedField_def IsUnexportedField_def)






lemma protectCRD_idem [simp]: "protectCRD (protectCRD c) = protectCRD c"
  by (simp add: protectCRD_def)

lemma protectCRDs_idem [simp]: "protectCRDs (protectCRDs crds) = protectCRDs crds"
  by (simp add: protectCRDs_def case_prod_beta)















text \<open>
  The test is for the suffix with its dot: a group named \<open>k8s.io\<close> or \<open>kubernetes.io\<close>
  itself is not protected.
\<close>

lemma bare_domain_not_protected:
  "\<not> protectedGroup ''k8s.io'' \<and> \<not> protectedGroup ''kubernetes.io''"
  by (simp add: protectedGroup_def HasSuffix_def)

end
